theory Spec2Isabelle
  imports Complex_Main
begin

section \<open>Python values used throughout\<close>

text \<open>
  Strings are sequences of code points below 256 (HOL's \<open>char\<close>); on such strings
  \<open>str.lower\<close> and \<open>str.strip\<close> are exactly the two functions below.
  \<open>str.strip()\<close> removes the characters for which \<open>str.isspace\<close> holds:
  U+0009..U+000D, U+001C..U+0020, U+0085 and U+00A0 in this range.
  \<open>str.lower()\<close> maps A..Z and the Latin-1 capitals U+00C0..U+00DE
  (without the multiplication sign U+00D7) to the code point 32 above.
\<close>

definition py_isspace :: "char \<Rightarrow> bool" where
  "py_isspace c = (let n = (of_char c :: nat) in
     (9 \<le> n \<and> n \<le> 13) \<or> (28 \<le> n \<and> n \<le> 32) \<or> n = 133 \<or> n = 160)"

definition py_lower_char :: "char \<Rightarrow> char" where
  "py_lower_char c = (let n = (of_char c :: nat) in
     if (65 \<le> n \<and> n \<le> 90) \<or> (192 \<le> n \<and> n \<le> 222 \<and> n \<noteq> 215)
     then char_of (n + 32) else c)"

definition py_lower :: "string \<Rightarrow> string" where
  "py_lower s = map py_lower_char s"

definition py_strip :: "string \<Rightarrow> string" where
  "py_strip s = rev (dropWhile py_isspace (rev (dropWhile py_isspace s)))"


section \<open>models.py: Chain\<close>

datatype Chain = ETHEREUM | POLYGON | ARBITRUM | OPTIMISM | BASE | SOLANA

text \<open>The dictionary literal of \<open>Chain.from_string\<close>, in the order of the source.\<close>

definition mapping :: "(string \<times> Chain) list" where
  "mapping =
    [(''eth'', ETHEREUM),
     (''ethereum'', ETHEREUM),
     (''polygon'', POLYGON),
     (''matic'', POLYGON),
     (''arbitrum'', ARBITRUM),
     (''arb'', ARBITRUM),
     (''optimism'', OPTIMISM),
     (''op'', OPTIMISM),
     (''base'', BASE),
     (''solana'', SOLANA),
     (''sol'', SOLANA)]"

text \<open>
  \<open>chain_str = chain_str.lower().strip(); return mapping.get(chain_str, cls.ETHEREUM)\<close>.
  The body has no raise and \<open>dict.get\<close> with a default never fails, so the result type
  carries no error.
\<close>

definition from_string :: "string \<Rightarrow> Chain" where
  "from_string chain_str =
     (let chain_str = py_strip (py_lower chain_str)
      in case map_of mapping chain_str of Some c \<Rightarrow> c | None \<Rightarrow> ETHEREUM)"


section \<open>storage/memory.py: MemoryStorage over cachetools.TTLCache\<close>

text \<open>
  \<open>Config\<close>: only the field the storage reads.
\<close>

record Config =
  cache_ttl :: int

text \<open>
  \<open>cachetools.TTLCache\<close> (a library class): every entry carries the clock reading at
  which it expires, \<open>time + ttl\<close> with the cache's own \<open>ttl\<close>, fixed at construction.
  \<open>links\<close> holds the entries (key, value, expires) in the order of their last
  assignment, oldest first. The clock is \<open>time.monotonic()\<close>, passed in as \<open>now\<close>.
\<close>

record 'v TTLCache =
  maxsize :: nat
  ttl :: int
  links :: "(string \<times> 'v \<times> real) list"

datatype cache_error = ValueError

definition expire :: "real \<Rightarrow> (string \<times> 'v \<times> real) list \<Rightarrow> (string \<times> 'v \<times> real) list" where
  "expire now ls = dropWhile (\<lambda>(k, v, e). \<not> now < e) ls"

text \<open>
  \<open>TTLCache.__setitem__\<close>: expire, make room (\<open>Cache.__setitem__\<close> pops the oldest
  entries while the cache is full and the key is new; an item larger than \<open>maxsize\<close> is a
  \<open>ValueError\<close>), store, and relink the key at the end with \<open>expires = time + ttl\<close>.
\<close>

definition TTLCache_setitem ::
  "'v TTLCache \<Rightarrow> real \<Rightarrow> string \<Rightarrow> 'v \<Rightarrow> cache_error + 'v TTLCache" where
  "TTLCache_setitem c now key val =
     (let l1 = expire now (links c) in
      if 1 > maxsize c then Inl ValueError
      else
        let l2 = (if key \<in> fst ` set l1 then l1
                  else drop (length l1 + 1 - maxsize c) l1);
            l3 = filter (\<lambda>(k, v, e). k \<noteq> key) l2 @ [(key, val, now + real_of_int (ttl c))]
        in Inr (c\<lparr>links := l3\<rparr>))"

text \<open>
  \<open>Cache.get\<close> on a \<open>TTLCache\<close>: the value when the key is linked and
  \<open>timer() < link.expires\<close>, else the default \<open>None\<close>; nothing is mutated.
\<close>

definition TTLCache_get :: "'v TTLCache \<Rightarrow> real \<Rightarrow> string \<Rightarrow> 'v option" where
  "TTLCache_get c now key =
     (case map_of (links c) key of
        None \<Rightarrow> None
      | Some (v, e) \<Rightarrow> if now < e then Some v else None)"

definition TTLCache_pop :: "'v TTLCache \<Rightarrow> string \<Rightarrow> 'v TTLCache" where
  "TTLCache_pop c key = c\<lparr>links := filter (\<lambda>(k, v, e). k \<noteq> key) (links c)\<rparr>"

record 'v MemoryStorage =
  config :: Config
  cache :: "'v TTLCache"

text \<open>\<open>MemoryStorage.__init__\<close>: \<open>TTLCache(maxsize=10000, ttl=config.cache_ttl)\<close>.\<close>

definition MemoryStorage_init :: "Config \<Rightarrow> 'v MemoryStorage" where
  "MemoryStorage_init cfg =
     \<lparr>config = cfg, cache = \<lparr>maxsize = 10000, ttl = cache_ttl cfg, links = []\<rparr>\<rparr>"

definition get_cache :: "'v MemoryStorage \<Rightarrow> real \<Rightarrow> string \<Rightarrow> 'v option" where
  "get_cache ms now key = TTLCache_get (cache ms) now key"

text \<open>
  \<open>set_cache(key, value, ttl)\<close>: both branches of the test on \<open>ttl\<close> run
  \<open>self.cache[key] = value\<close>.
\<close>

definition set_cache ::
  "'v MemoryStorage \<Rightarrow> real \<Rightarrow> string \<Rightarrow> 'v \<Rightarrow> int \<Rightarrow> cache_error + 'v MemoryStorage" where
  "set_cache ms now key val ttl_arg =
     (if ttl_arg \<noteq> cache_ttl (config ms)
      then (case TTLCache_setitem (cache ms) now key val of
              Inl e \<Rightarrow> Inl e | Inr c \<Rightarrow> Inr (ms\<lparr>cache := c\<rparr>))
      else (case TTLCache_setitem (cache ms) now key val of
              Inl e \<Rightarrow> Inl e | Inr c \<Rightarrow> Inr (ms\<lparr>cache := c\<rparr>)))"

definition delete_cache :: "'v MemoryStorage \<Rightarrow> string \<Rightarrow> 'v MemoryStorage" where
  "delete_cache ms key = ms\<lparr>cache := TTLCache_pop (cache ms) key\<rparr>"

text \<open>
  What \<open>__init__\<close> establishes and every method keeps: the cache's TTL is the
  configured one and its capacity is 10000.
\<close>

definition storage_inv :: "'v MemoryStorage \<Rightarrow> bool" where
  "storage_inv ms = (ttl (cache ms) = cache_ttl (config ms) \<and> maxsize (cache ms) = 10000)"


section \<open>clients/helius.py: HeliusClient.get_collection_nfts\<close>

text \<open>Python truthiness of an optional string and of an optional integer.\<close>

definition truthy_str :: "string option \<Rightarrow> bool" where
  "truthy_str x = (case x of None \<Rightarrow> False | Some s \<Rightarrow> s \<noteq> [])"

definition truthy_int :: "int option \<Rightarrow> bool" where
  "truthy_int x = (case x of None \<Rightarrow> False | Some n \<Rightarrow> n \<noteq> 0)"

text \<open>
  The mutable fields \<open>_current_collection\<close>, \<open>_collection_total\<close> and
  \<open>_last_total\<close> the client keeps across calls. A field that was never assigned
  (\<open>hasattr\<close> false) and a field holding \<open>None\<close> are both \<open>None\<close>: every test in the
  source treats them alike.
\<close>

record HeliusClient =
  hc_current_collection :: "string option"
  hc_collection_total :: "int option"
  hc_last_total :: "int option"

text \<open>
  What the network answers during one call: the JSON-RPC \<open>getAssetsByGroup\<close> result
  (keys \<open>items\<close>, \<open>cursor\<close>, \<open>total\<close> with default 0), the DAS fallback
  (keys \<open>items\<close>, \<open>page\<close>, \<open>cursor\<close>), the outcome of the marketplace symbol
  resolution (\<open>collection_addr_found\<close>), and what \<open>_enrich_nft_metadata\<close> makes of an
  item (it catches its own exceptions). A request that raises is \<open>Raised\<close>.
\<close>

datatype 'r outcome = Raised | Returned 'r

record 'a rpc_response =
  rpc_items :: "'a list"
  rpc_cursor :: "string option"
  rpc_total :: int

record 'a das_response =
  das_items :: "'a list"
  das_page :: "string option"
  das_cursor :: "string option"

record 'a helius_net =
  rpc :: "'a rpc_response outcome"
  das :: "'a das_response outcome"
  resolved :: "string option"
  enrich :: "'a \<Rightarrow> 'a"

text \<open>
  The returned dictionary. \<open>h_has_more = None\<close> is the dictionary without the key
  \<open>has_more\<close> (the one built in the outer \<open>except\<close>).
\<close>

record 'a helius_response =
  h_nfts :: "'a list"
  h_page :: "string option"
  h_cursor :: "string option"
  h_totalCount :: nat
  h_total :: "int option"
  h_has_more :: "bool option"

datatype helius_error = OnlySolana

text \<open>
  \<open>re.match(r'^[1-9A-HJ-NP-Za-km-z]+$', s)\<close>: a non-empty run of base-58 digits, where
  \<open>$\<close> also matches before one final newline.
\<close>

definition base58_char :: "char \<Rightarrow> bool" where
  "base58_char c = (let n = (of_char c :: nat) in
     (49 \<le> n \<and> n \<le> 57) \<or> (65 \<le> n \<and> n \<le> 72) \<or> (74 \<le> n \<and> n \<le> 78)
     \<or> (80 \<le> n \<and> n \<le> 90) \<or> (97 \<le> n \<and> n \<le> 107) \<or> (109 \<le> n \<and> n \<le> 122))"

definition base58_match :: "string \<Rightarrow> bool" where
  "base58_match s =
     (let body = (if s \<noteq> [] \<and> last s = CHR 0x0A then butlast s else s)
      in body \<noteq> [] \<and> list_all base58_char body)"

definition is_address :: "string \<Rightarrow> bool" where
  "is_address collection_address =
     (length collection_address \<ge> 32 \<and> length collection_address \<le> 44
      \<and> base58_match collection_address)"

text \<open>
  Lines 253-274 (and again 489-505): \<open>actual_total\<close> from one RPC response;
  \<open>n\<close> is \<open>len(items)\<close>.
\<close>

definition actual_total_of ::
  "string option \<Rightarrow> string option \<Rightarrow> int \<Rightarrow> int \<Rightarrow> int \<Rightarrow> int option" where
  "actual_total_of cursor page_cursor n limit total_returned =
     (if \<not> truthy_str cursor then
        (if \<not> truthy_str page_cursor \<and> n < limit then Some n
         else if truthy_str page_cursor then None
         else Some total_returned)
      else None)"

definition store_total :: "HeliusClient \<Rightarrow> int \<Rightarrow> HeliusClient" where
  "store_total st t = st\<lparr>hc_collection_total := Some t, hc_last_total := Some t\<rparr>"

text \<open>Lines 276-288: the address path stores the total.\<close>

definition store_direct ::
  "HeliusClient \<Rightarrow> int option \<Rightarrow> int \<Rightarrow> HeliusClient" where
  "store_direct st actual_total total_returned =
     (if actual_total \<noteq> None \<and> hc_collection_total st = None
      then store_total st (the actual_total)
      else if hc_collection_total st = None
      then (if total_returned > 0 then store_total st total_returned else st)
      else st)"

text \<open>Lines 507-528: the same step on the path of a resolved symbol.\<close>

definition store_resolved ::
  "HeliusClient \<Rightarrow> int option \<Rightarrow> int \<Rightarrow> string option \<Rightarrow> int \<Rightarrow> int \<Rightarrow> HeliusClient" where
  "store_resolved st actual_total total_returned page_cursor n limit =
     (if actual_total \<noteq> None \<and> hc_collection_total st = None
      then store_total st (the actual_total)
      else if hc_collection_total st = None
      then (if total_returned > 0 \<and> \<not> truthy_str page_cursor \<and> n < limit
            then store_total st total_returned
            else if total_returned > 0 \<and> \<not> truthy_str page_cursor
            then store_total st total_returned
            else st)
      else st)"

definition rpc_has_more :: "string option \<Rightarrow> int \<Rightarrow> int \<Rightarrow> int \<Rightarrow> bool" where
  "rpc_has_more page_cursor n limit total_returned =
     (page_cursor \<noteq> None \<or> n \<ge> limit \<or> (total_returned > 0 \<and> n < total_returned))"

text \<open>
  Lines 555-595: the total reported back, the enrichment, the dictionary.
\<close>

definition helius_result ::
  "'a helius_net \<Rightarrow> HeliusClient \<Rightarrow> 'a list \<Rightarrow> string option \<Rightarrow> bool \<Rightarrow> 'a helius_response" where
  "helius_result net st items page_cursor has_more =
     (let total_out = (if truthy_int (hc_collection_total st) then hc_collection_total st
                       else if truthy_int (hc_last_total st) then hc_last_total st
                       else None);
          enriched = map (enrich net) items
      in \<lparr>h_nfts = enriched, h_page = page_cursor, h_cursor = page_cursor,
          h_totalCount = length enriched, h_total = total_out, h_has_more = Some has_more\<rparr>)"

text \<open>The dictionary of the outer \<open>except\<close> (lines 596-603).\<close>

definition helius_empty :: "'a helius_response" where
  "helius_empty = \<lparr>h_nfts = [], h_page = None, h_cursor = None, h_totalCount = 0,
                    h_total = None, h_has_more = None\<rparr>"

text \<open>
  One RPC page followed by the DAS fallback when the RPC request raised; \<open>direct\<close>
  tells the address path from the resolved-symbol path, which differ in the store step.
\<close>

definition fetch_group ::
  "'a helius_net \<Rightarrow> HeliusClient \<Rightarrow> bool \<Rightarrow> string option \<Rightarrow> int
     \<Rightarrow> HeliusClient \<times> 'a helius_response" where
  "fetch_group net st direct cursor page_size =
     (let limit = min page_size 10000 in
      case rpc net of
        Returned r \<Rightarrow>
          (let items = rpc_items r;
               page_cursor = rpc_cursor r;
               total_returned = rpc_total r;
               n = int (length items);
               actual_total = actual_total_of cursor page_cursor n limit total_returned;
               st' = (if direct then store_direct st actual_total total_returned
                      else store_resolved st actual_total total_returned page_cursor n limit);
               has_more = rpc_has_more page_cursor n limit total_returned
           in (st', helius_result net st' items page_cursor has_more))
      | Raised \<Rightarrow>
          (case das net of
             Returned d \<Rightarrow>
               (let page_cursor = (if truthy_str (das_page d) then das_page d else das_cursor d)
                in (st, helius_result net st (das_items d) page_cursor (page_cursor \<noteq> None)))
           | Raised \<Rightarrow> (st, helius_empty)))"

definition helius_get_collection_nfts ::
  "'a helius_net \<Rightarrow> HeliusClient \<Rightarrow> string \<Rightarrow> string \<Rightarrow> string option \<Rightarrow> int
     \<Rightarrow> HeliusClient \<times> (helius_error + 'a helius_response)" where
  "helius_get_collection_nfts net self collection_address chain cursor page_size =
     (let st = (if hc_current_collection self \<noteq> Some collection_address
                then \<lparr>hc_current_collection = Some collection_address,
                      hc_collection_total = None, hc_last_total = None\<rparr>
                else self)
      in if py_lower chain \<noteq> ''solana'' then (st, Inl OnlySolana)
         else if is_address collection_address then
           (let (st', r) = fetch_group net st True cursor page_size in (st', Inr r))
         else if truthy_str (resolved net) then
           (let (st', r) = fetch_group net (st\<lparr>hc_current_collection := resolved net\<rparr>)
                             False cursor page_size
            in (st', Inr r))
         else (st, Inr (helius_result net st [] None False)))"


section \<open>web_server.py: the page walks of the scrape\_collection action\<close>

text \<open>
  A normalized NFT, with the fields the walks read. \<open>raw_metadata\<close> is \<open>None\<close> when
  the attribute is empty or not a dictionary; otherwise it holds the strings the
  fallback of lines 936-944 reads from it: \<open>raw_id_tokenId\<close> is
  \<open>str(id_obj.get('tokenId', ''))\<close> when \<open>raw_meta.get('id', {})\<close> is a dictionary
  (else \<open>None\<close>), and \<open>raw_fallback\<close> is
  \<open>str(raw_meta.get('tokenId') or raw_meta.get('id') or raw_meta.get('token_id', ''))\<close>.
\<close>

record raw_meta =
  raw_id_tokenId :: "string option"
  raw_fallback :: string

record NormalizedNFT =
  token_id :: string
  contract_address :: string
  raw_metadata :: "raw_meta option"

text \<open>\<open>CollectionNFTResponse\<close> (models.py).\<close>

record CollectionNFTResponse =
  total_count :: nat
  total_field :: "int option"
  nfts :: "NormalizedNFT list"
  cursor :: "string option"
  has_more :: bool

text \<open>
  \<open>scout.get_collection_nfts(contract_address, chain, cursor, page_size)\<close> as the walks
  see it: it raises or returns a response. The first argument is the number of requests
  the action has made before this one, so that the answers may change from call to call.
\<close>

datatype fetch_result = FetchRaised | Fetched CollectionNFTResponse

type_synonym provider = "nat \<Rightarrow> Chain \<Rightarrow> string option \<Rightarrow> nat \<Rightarrow> fetch_result"

text \<open>
  The local variables of the action that the two loops use. \<open>page_count\<close> is one
  variable, shared by the counting loop and the scraping loop. The last three fields are
  not variables of the source: \<open>fetches\<close> counts the requests made so far,
  \<open>emitted\<close> lists the items sent in \<open>"nft"\<close> messages, in order, and \<open>error_sent\<close> tells
  whether an \<open>"error"\<close> message was sent.
\<close>

record locals =
  chain_var :: Chain
  cursor_var :: "string option"
  total_scraped :: nat
  seen_nfts :: "(string \<times> string) set"
  collection_total :: "int option"
  page_count :: nat
  total_counted :: nat
  current_cursor :: "string option"
  consecutive_empty_pages :: nat
  fetches :: nat
  emitted :: "NormalizedNFT list"
  error_sent :: bool

datatype 's step = Continue 's | Break 's

text \<open>Lines 874 and 876.\<close>

definition max_count_pages :: "Chain \<Rightarrow> nat" where
  "max_count_pages c = (if c \<noteq> SOLANA then 200 else 100)"

definition page_size_of :: "Chain \<Rightarrow> nat" where
  "page_size_of c = (if c \<noteq> SOLANA then 100 else 1000)"

text \<open>Line 593.\<close>

definition max_pages :: nat where
  "max_pages = 10000"

text \<open>
  Lines 929-946: the token id of the last item of a full page, \<open>None\<close> when the
  source ends with a value that fails the test of line 946.
\<close>

definition last_token_id :: "NormalizedNFT \<Rightarrow> string option" where
  "last_token_id last_nft =
     (let token_id0 = (if token_id last_nft \<noteq> [] then Some (py_strip (token_id last_nft))
                       else None);
          token_id1 =
            (if \<not> truthy_str token_id0 \<or> token_id0 = Some ''None'' then
               (case raw_metadata last_nft of
                  None \<Rightarrow> token_id0
                | Some raw \<Rightarrow>
                    (let t = (case raw_id_tokenId raw of
                                Some x \<Rightarrow> Some (py_strip x) | None \<Rightarrow> token_id0)
                     in if \<not> truthy_str t then Some (py_strip (raw_fallback raw)) else t))
             else token_id0)
      in if truthy_str token_id1 \<and> token_id1 \<noteq> Some ''None'' then token_id1 else None)"

text \<open>
  Lines 890-970: what the counting loop does with one fetched page.
\<close>

definition count_page :: "locals \<Rightarrow> CollectionNFTResponse \<Rightarrow> locals step" where
  "count_page st count_response =
     (let page_size = page_size_of (chain_var st);
          nfts_in_page = length (nfts count_response);
          st1 = st\<lparr>total_counted := total_counted st + nfts_in_page,
                   page_count := page_count st + 1\<rparr>;
          st2 = st1\<lparr>consecutive_empty_pages :=
                      (if nfts_in_page = 0 then consecutive_empty_pages st + 1 else 0)\<rparr>
      in if nfts_in_page = 0 \<and> consecutive_empty_pages st2 \<ge> 2 then Break st2
         else
           let next_cursor = (if truthy_str (cursor count_response)
                              then cursor count_response else None)
           in if truthy_str next_cursor then Continue (st2\<lparr>current_cursor := next_cursor\<rparr>)
              else if nfts_in_page = page_size then
                (if nfts count_response \<noteq> [] then
                   (case last_token_id (last (nfts count_response)) of
                      Some tid \<Rightarrow> Continue (st2\<lparr>current_cursor := Some tid\<rparr>)
                    | None \<Rightarrow>
                        if page_count st2 < max_count_pages (chain_var st) - 1
                        then Continue st2 else Break st2)
                 else Break st2)
              else if nfts_in_page < page_size then Break st2
              else Break st2)"

text \<open>Lines 878-888: the loop; a request that raises ends it.\<close>

function count_loop :: "provider \<Rightarrow> locals \<Rightarrow> locals" where
  "count_loop fetch st =
     (if page_count st < max_count_pages (chain_var st) then
        (case fetch (fetches st) (chain_var st) (current_cursor st) (page_size_of (chain_var st)) of
           FetchRaised \<Rightarrow> st\<lparr>fetches := fetches st + 1\<rparr>
         | Fetched count_response \<Rightarrow>
             (case count_page (st\<lparr>fetches := fetches st + 1\<rparr>) count_response of
                Continue st' \<Rightarrow> count_loop fetch st'
              | Break st' \<Rightarrow> st'))
      else st)"
  by pat_completeness auto

termination count_loop
proof (relation "measure (\<lambda>(fetch, st). max_count_pages (chain_var st) - page_count st)")
  show "wf (measure (\<lambda>(fetch, st). max_count_pages (chain_var st) - page_count st))"
    by simp
next
  fix fetch :: provider and st :: locals and count_response st'
  assume lt: "page_count st < max_count_pages (chain_var st)"
    and c: "count_page (st\<lparr>fetches := fetches st + 1\<rparr>) count_response = Continue st'"
  from c have "page_count st' = page_count st + 1 \<and> chain_var st' = chain_var st"
    by (auto simp: count_page_def Let_def split: if_splits option.splits)
  with lt show "((fetch, st'), (fetch, st))
        \<in> measure (\<lambda>(fetch, st). max_count_pages (chain_var st) - page_count st)"
    by simp
qed

declare count_loop.simps [simp del]

text \<open>
  Lines 828-852: whether the action counts by paginating, from the total it has after
  the collection statistics.
\<close>

definition should_count :: "Chain \<Rightarrow> int option \<Rightarrow> bool" where
  "should_count c collection_total0 =
     (if truthy_int collection_total0 \<and> the collection_total0 > 100
         \<and> the collection_total0 \<noteq> 100 then False
      else if c \<noteq> SOLANA \<and> \<not> truthy_int collection_total0 then True
      else if \<not> truthy_int collection_total0 then True
      else if (c \<noteq> SOLANA \<and> collection_total0 = Some 100)
            \<or> (c = SOLANA \<and> collection_total0 = Some 1000) then True
      else if c \<noteq> SOLANA \<and> truthy_int collection_total0 \<and> the collection_total0 \<le> 100
      then True
      else False)"

text \<open>
  Lines 856-988: the counting phase. It resets the four variables of the loop, runs it,
  and takes the count as the collection total when it is positive.
\<close>

definition count_phase :: "provider \<Rightarrow> locals \<Rightarrow> locals" where
  "count_phase fetch st =
     (if should_count (chain_var st) (collection_total st) then
        (let st' = count_loop fetch (st\<lparr>total_counted := 0, current_cursor := None,
                                        page_count := 0, consecutive_empty_pages := 0\<rparr>)
         in if total_counted st' > 0
            then st'\<lparr>collection_total := Some (int (total_counted st'))\<rparr>
            else st')
      else st)"

text \<open>
  Lines 1235-1246: the loop over the items of a page. An item whose pair
  \<open>(str(token_id), str(contract_address))\<close> is in \<open>seen_nfts\<close> is skipped; any other is
  marked seen, counted and sent.
\<close>

definition nft_id :: "NormalizedNFT \<Rightarrow> string \<times> string" where
  "nft_id nft = (token_id nft, contract_address nft)"

fun process_nfts :: "NormalizedNFT list \<Rightarrow> locals \<Rightarrow> locals" where
  "process_nfts [] st = st"
| "process_nfts (nft # rest) st =
     (if nft_id nft \<in> seen_nfts st then process_nfts rest st
         else process_nfts rest
                (st\<lparr>seen_nfts := insert (nft_id nft) (seen_nfts st),
                    total_scraped := total_scraped st + 1,
                    emitted := emitted st @ [nft]\<rparr>))"

text \<open>
  What the walk keeps of its result set: the items sent have pairwise different
  identifiers, these identifiers are exactly the set \<open>seen_nfts\<close>, and
  \<open>total_scraped\<close> is the number of items sent.
\<close>

definition dedup_inv :: "locals \<Rightarrow> bool" where
  "dedup_inv st =
     (distinct (map nft_id (emitted st)) \<and> nft_id ` set (emitted st) = seen_nfts st
      \<and> total_scraped st = length (emitted st))"

text \<open>
  Lines 1093-1145: with no total yet, the scraping loop takes one from the response or
  from the fields of the Helius client; \<open>helius\<close> is the client as it is after the
  request (\<open>None\<close> when \<open>scout.helius\<close> has no attribute \<open>_last_total\<close>).
\<close>

definition find_total ::
  "Chain \<Rightarrow> HeliusClient option \<Rightarrow> CollectionNFTResponse \<Rightarrow> int option \<Rightarrow> int option" where
  "find_total c helius response collection_total0 =
     (if collection_total0 = None then
        (let t1 = (if truthy_int (total_field response) then total_field response
                   else if total_count response > length (nfts response)
                   then Some (int (total_count response))
                   else None)
         in case helius of
              None \<Rightarrow> t1
            | Some h \<Rightarrow>
                if c = SOLANA then
                  (if truthy_int (hc_last_total h) then hc_last_total h
                   else if truthy_int (hc_collection_total h) then hc_collection_total h
                   else t1)
                else t1)
      else collection_total0)"

text \<open>
  Lines 1185-1212: after an empty first page on Ethereum, the other EVM chains are
  probed in turn with \<open>page_size=10\<close>; a probe that raises is skipped. The result is the
  first chain with items, if any, and the number of requests made so far.
\<close>

fun try_chains :: "provider \<Rightarrow> nat \<Rightarrow> Chain list \<Rightarrow> Chain option \<times> nat" where
  "try_chains fetch n [] = (None, n)"
| "try_chains fetch n (alt_chain # rest) =
     (case fetch n alt_chain None 10 of
        FetchRaised \<Rightarrow> try_chains fetch (n + 1) rest
      | Fetched alt_response \<Rightarrow>
          if nfts alt_response \<noteq> [] then (Some alt_chain, n + 1)
          else try_chains fetch (n + 1) rest)"

definition chains_to_try :: "Chain list" where
  "chains_to_try = [POLYGON, ARBITRUM, OPTIMISM, BASE]"

definition startswith_0x :: "string \<Rightarrow> bool" where
  "startswith_0x s = (take 2 s = ''0x'')"

text \<open>
  Lines 1347-1457: after the items of a page were processed, continue or stop.
\<close>

definition decide :: "locals \<Rightarrow> CollectionNFTResponse \<Rightarrow> locals step" where
  "decide st response =
     (let response_cursor = (if truthy_str (cursor response) then cursor response else None);
          n = length (nfts response);
          known = (truthy_int (collection_total st) \<and> the (collection_total st) > 0
                   \<and> int (total_scraped st) < the (collection_total st));
          use_cursor = (if truthy_str response_cursor
                        then st\<lparr>cursor_var := response_cursor\<rparr> else st);
          next_page = (\<lambda>s. s\<lparr>page_count := page_count s + 1\<rparr>)
      in if known then Continue (next_page use_cursor)
         else if (chain_var st = SOLANA \<and> n \<ge> 1000) \<or> (chain_var st \<noteq> SOLANA \<and> n \<ge> 100)
         then Continue (next_page use_cursor)
         else if has_more response then Continue (next_page use_cursor)
         else if truthy_str response_cursor then Continue (next_page use_cursor)
         else if truthy_str (cursor_var st) then Continue (next_page st)
         else if truthy_int (collection_total st)
                 \<and> int (total_scraped st) < the (collection_total st)
         then (if n \<ge> 100 then Continue (next_page st) else Break st)
         else if n \<ge> 100 then Continue (next_page st)
         else Break st)"

text \<open>
  Lines 1060-1476: one iteration of the scraping loop. \<open>helius_view n\<close> is the Helius
  client after \<open>n\<close> requests.
\<close>

definition scrape_page ::
  "provider \<Rightarrow> (nat \<Rightarrow> HeliusClient option) \<Rightarrow> string \<Rightarrow> locals \<Rightarrow> locals step" where
  "scrape_page fetch helius_view contract_addr st =
     (let page_size = (if chain_var st = SOLANA then 1000 else 100) in
      case fetch (fetches st) (chain_var st) (cursor_var st) page_size of
        FetchRaised \<Rightarrow> Break (st\<lparr>fetches := fetches st + 1, error_sent := True\<rparr>)
      | Fetched response \<Rightarrow>
          (let st1 = st\<lparr>fetches := fetches st + 1\<rparr>;
               st2 = st1\<lparr>collection_total :=
                          find_total (chain_var st) (helius_view (fetches st1)) response
                            (collection_total st)\<rparr>
           in if nfts response = [] then
                (if page_count st2 = 0 then
                   (if chain_var st2 = SOLANA \<and> \<not> startswith_0x contract_addr
                       \<and> length contract_addr < 32
                    then Break (st2\<lparr>error_sent := True\<rparr>)
                    else if chain_var st2 = ETHEREUM \<and> startswith_0x contract_addr then
                      (case try_chains fetch (fetches st2) chains_to_try of
                         (None, k) \<Rightarrow> Break (st2\<lparr>fetches := k\<rparr>)
                       | (Some alt_chain, k) \<Rightarrow>
                           decide (process_nfts (nfts response)
                                     (st2\<lparr>fetches := k, chain_var := alt_chain\<rparr>)) response)
                    else if chain_var st2 = SOLANA then Break (st2\<lparr>error_sent := True\<rparr>)
                    else Break st2)
                 else Break st2)
              else decide (process_nfts (nfts response) st2) response))"

function scrape_loop ::
  "provider \<Rightarrow> (nat \<Rightarrow> HeliusClient option) \<Rightarrow> string \<Rightarrow> locals \<Rightarrow> locals" where
  "scrape_loop fetch helius_view contract_addr st =
     (if page_count st < max_pages then
        (case scrape_page fetch helius_view contract_addr st of
           Continue st' \<Rightarrow> scrape_loop fetch helius_view contract_addr st'
         | Break st' \<Rightarrow> st')
      else st)"
  by pat_completeness auto

termination scrape_loop
proof (relation "measure (\<lambda>(fetch, helius_view, contract_addr, st). max_pages - page_count st)")
  show "wf (measure (\<lambda>(fetch, helius_view, contract_addr, st). max_pages - page_count st))"
    by simp
next
  fix fetch :: provider and helius_view :: "nat \<Rightarrow> HeliusClient option"
    and contract_addr :: string and st st' :: locals
  assume lt: "page_count st < max_pages"
    and c: "scrape_page fetch helius_view contract_addr st = Continue st'"
  have pn: "page_count (process_nfts xs s) = page_count s" for xs s
    by (induction xs arbitrary: s) simp_all
  have d: "decide s r = Continue s' \<Longrightarrow> page_count s' = page_count s + 1" for s r s'
    by (auto simp: decide_def Let_def split: if_splits)
  from c have "page_count st' = page_count st + 1"
    by (auto simp: scrape_page_def Let_def pn
        split: fetch_result.splits if_splits prod.splits option.splits dest!: d)
  with lt show "((fetch, helius_view, contract_addr, st'), (fetch, helius_view, contract_addr, st))
        \<in> measure (\<lambda>(fetch, helius_view, contract_addr, st). max_pages - page_count st)"
    by simp
qed

declare scrape_loop.simps [simp del]

text \<open>
  Lines 586-594, 856-988, 1059-1494: the walk of one \<open>scrape_collection\<close> action from
  the total \<open>collection_total0\<close> it has after the collection statistics. The result
  holds what the final \<open>"complete"\<close> message reports: \<open>total_scraped\<close> and
  \<open>collection_total\<close>.
\<close>

definition start_locals :: "Chain \<Rightarrow> int option \<Rightarrow> locals" where
  "start_locals c collection_total0 =
     \<lparr>chain_var = c, cursor_var = None, total_scraped = 0, seen_nfts = {},
      collection_total = collection_total0, page_count = 0, total_counted = 0,
      current_cursor = None, consecutive_empty_pages = 0,
      fetches = 0, emitted = [], error_sent = False\<rparr>"

definition scrape_collection ::
  "provider \<Rightarrow> (nat \<Rightarrow> HeliusClient option) \<Rightarrow> string \<Rightarrow> Chain \<Rightarrow> int option \<Rightarrow> locals" where
  "scrape_collection fetch helius_view contract_addr c collection_total0 =
     scrape_loop fetch helius_view contract_addr
       (count_phase fetch (start_locals c collection_total0))"

text \<open>Lines 1479-1483: \<open>remaining\<close> of the final message.\<close>

definition remaining :: "locals \<Rightarrow> int option" where
  "remaining st =
     (if truthy_int (collection_total st) \<and> the (collection_total st) > 0
      then Some (max 0 (the (collection_total st) - int (total_scraped st)))
      else None)"


text \<open>
  Mock providers of the testable properties: one that answers every request with an
  empty page without cursor, and one that answers every request with a full page and a
  cursor (an infinite collection).
\<close>

definition empty_page :: CollectionNFTResponse where
  "empty_page = \<lparr>total_count = 0, total_field = None, nfts = [], cursor = None,
                  has_more = False\<rparr>"

definition empty_provider :: provider where
  "empty_provider n c cur page_size = Fetched empty_page"

text \<open>A scout whose Helius client has no attribute \<open>_last_total\<close>.\<close>

definition no_helius :: "nat \<Rightarrow> HeliusClient option" where
  "no_helius n = None"

text \<open>
  And the one of the full-page continuation property: two pages of \<open>page_size\<close> items
  and a third of \<open>page_size - 1\<close>, none with a cursor.
\<close>

definition page_of :: "nat \<Rightarrow> string \<Rightarrow> CollectionNFTResponse" where
  "page_of k tid =
     \<lparr>total_count = k, total_field = None,
      nfts = replicate k \<lparr>token_id = tid, contract_address = ''0xabc'', raw_metadata = None\<rparr>,
      cursor = None, has_more = False\<rparr>"

definition three_page_provider :: provider where
  "three_page_provider n c cur page_size =
     (if n = 0 then Fetched (page_of page_size ''100'')
      else if n = 1 then Fetched (page_of page_size ''200'')
      else Fetched (page_of (page_size - 1) ''299''))"

definition full_page :: "nat \<Rightarrow> CollectionNFTResponse" where
  "full_page page_size =
     \<lparr>total_count = page_size, total_field = None,
      nfts = replicate page_size \<lparr>token_id = ''1'', contract_address = ''0xabc'',
                                 raw_metadata = None\<rparr>,
      cursor = Some ''next'', has_more = True\<rparr>"

definition full_provider :: provider where
  "full_provider n c cur page_size = Fetched (full_page page_size)"


section \<open>scraper.py: NFTScout.get\_collection\_nfts\<close>

text \<open>
  The clients of the scout: the Helius client with its fields, the others by presence.
\<close>

record NFTScout =
  helius :: "HeliusClient option"
  alchemy :: bool
  moralis :: bool
  quicknode :: bool
  magiceden :: bool
  reservoir :: bool
  selenium_scraper :: bool

datatype client = HeliusC HeliusClient | AlchemyC | MoralisC | QuickNodeC

definition get_client_for_chain :: "NFTScout \<Rightarrow> Chain \<Rightarrow> client option" where
  "get_client_for_chain self c =
     (if c = SOLANA then map_option HeliusC (helius self)
      else if alchemy self then Some AlchemyC
      else if moralis self then Some MoralisC
      else if quicknode self then Some QuickNodeC
      else None)"

text \<open>
  What \<open>_make_request\<close> of the Alchemy client (keys \<open>nfts\<close>, \<open>nextToken\<close>, \<open>pageKey\<close>) and
  of the Moralis client (keys \<open>result\<close>, \<open>cursor\<close>) answer, or \<open>Raised\<close>.
\<close>

record 'a alchemy_page =
  al_nfts :: "'a list"
  al_nextToken :: "string option"
  al_pageKey :: "string option"

record 'a moralis_page =
  mo_result :: "'a list"
  mo_cursor :: "string option"

record 'a page_net =
  helius_page :: "'a helius_net"
  alchemy_page :: "'a alchemy_page outcome"
  moralis_page :: "'a moralis_page outcome"
  normalize :: "'a \<Rightarrow> NormalizedNFT"

text \<open>The dictionary a client hands to the scout; an absent key is \<open>None\<close>.\<close>

record 'a raw_page =
  p_nfts :: "'a list"
  p_pageKey :: "string option"
  p_nextToken :: "string option"
  p_page :: "string option"
  p_cursor :: "string option"
  p_has_more :: "bool option"
  p_total :: "int option"
  p_totalCount :: "int option"
  p_totalSupply :: "int option"

definition or_str :: "string option \<Rightarrow> string option \<Rightarrow> string option" where
  "or_str a b = (if truthy_str a then a else b)"

definition or_int :: "int option \<Rightarrow> int option \<Rightarrow> int option" where
  "or_int a b = (if truthy_int a then a else b)"

text \<open>clients/alchemy.py, \<open>get_contract_nfts\<close>: a failed request is logged and raised again.\<close>

definition alchemy_get_contract_nfts :: "'a alchemy_page outcome \<Rightarrow> 'a raw_page outcome" where
  "alchemy_get_contract_nfts r =
     (case r of
        Raised \<Rightarrow> Raised
      | Returned response \<Rightarrow>
          (let next_token = or_str (al_nextToken response) (al_pageKey response)
           in Returned \<lparr>p_nfts = al_nfts response, p_pageKey = next_token,
                p_nextToken = next_token, p_page = None, p_cursor = None, p_has_more = None,
                p_total = None, p_totalCount = None, p_totalSupply = None\<rparr>))"

text \<open>clients/moralis.py, \<open>get_contract_nfts\<close>: a failed request gives an empty page.\<close>

definition moralis_get_contract_nfts :: "'a moralis_page outcome \<Rightarrow> 'a raw_page outcome" where
  "moralis_get_contract_nfts r =
     (case r of
        Raised \<Rightarrow>
          Returned \<lparr>p_nfts = [], p_pageKey = None, p_nextToken = None, p_page = None,
            p_cursor = None, p_has_more = None, p_total = None, p_totalCount = None,
            p_totalSupply = None\<rparr>
      | Returned response \<Rightarrow>
          Returned \<lparr>p_nfts = mo_result response, p_pageKey = mo_cursor response,
            p_nextToken = None, p_page = mo_cursor response, p_cursor = mo_cursor response,
            p_has_more = None, p_total = None, p_totalCount = None, p_totalSupply = None\<rparr>)"

definition helius_raw_page :: "'a helius_response \<Rightarrow> 'a raw_page" where
  "helius_raw_page h =
     \<lparr>p_nfts = h_nfts h, p_pageKey = None, p_nextToken = None, p_page = h_page h,
      p_cursor = h_cursor h, p_has_more = h_has_more h, p_total = h_total h,
      p_totalCount = Some (int (h_totalCount h)), p_totalSupply = None\<rparr>"

datatype scout_error = NoClient | ClientRaised

text \<open>
  Lines 324-382: from the client's dictionary to the response. \<open>hc\<close> is the Helius
  client when it served the request.
\<close>

definition build_response ::
  "('a \<Rightarrow> NormalizedNFT) \<Rightarrow> Chain \<Rightarrow> HeliusClient option \<Rightarrow> nat \<Rightarrow> 'a raw_page
     \<Rightarrow> CollectionNFTResponse" where
  "build_response normalize_nft c hc page_size response =
     (let normalized = map normalize_nft (p_nfts response);
          cur = or_str (p_pageKey response)
                  (or_str (p_nextToken response) (or_str (p_page response) (p_cursor response)));
          more = (case p_has_more response of
                    Some b \<Rightarrow> b
                  | None \<Rightarrow> cur \<noteq> None \<or> length normalized \<ge> page_size);
          t0 = or_int (p_total response) (or_int (p_totalCount response) (p_totalSupply response));
          t1 = (case hc of
                  Some h \<Rightarrow>
                    if \<not> truthy_int t0 \<and> c = SOLANA then
                      (if truthy_int (hc_last_total h) then hc_last_total h
                       else if truthy_int (hc_collection_total h) then hc_collection_total h
                       else t0)
                    else t0
                | None \<Rightarrow> t0)
      in \<lparr>total_count = length normalized, total_field = t1, nfts = normalized,
          cursor = cur, has_more = more\<rparr>)"

text \<open>
  Lines 240-382. The result is the scout after the call (the Helius client may have
  changed) and the exception or the response.
\<close>

definition chain_value :: "Chain \<Rightarrow> string" where
  "chain_value c = (case c of ETHEREUM \<Rightarrow> ''ethereum'' | POLYGON \<Rightarrow> ''polygon''
     | ARBITRUM \<Rightarrow> ''arbitrum'' | OPTIMISM \<Rightarrow> ''optimism'' | BASE \<Rightarrow> ''base''
     | SOLANA \<Rightarrow> ''solana'')"

definition get_collection_nfts ::
  "'a page_net \<Rightarrow> NFTScout \<Rightarrow> string \<Rightarrow> Chain \<Rightarrow> string option \<Rightarrow> nat
     \<Rightarrow> NFTScout \<times> (scout_error + CollectionNFTResponse)" where
  "get_collection_nfts net self contract_addr c cursor0 page_size =
     (case get_client_for_chain self c of
        None \<Rightarrow> (self, Inl NoClient)
      | Some (HeliusC hc) \<Rightarrow>
          (case helius_get_collection_nfts (helius_page net) hc contract_addr (chain_value c)
                  cursor0 (int page_size) of
             (hc', Inl e) \<Rightarrow> (self\<lparr>helius := Some hc'\<rparr>, Inl ClientRaised)
           | (hc', Inr h) \<Rightarrow>
               (self\<lparr>helius := Some hc'\<rparr>,
                Inr (build_response (normalize net) c (Some hc') page_size (helius_raw_page h))))
      | Some AlchemyC \<Rightarrow>
          (case alchemy_get_contract_nfts (alchemy_page net) of
             Raised \<Rightarrow> (self, Inl ClientRaised)
           | Returned response \<Rightarrow>
               (self, Inr (build_response (normalize net) c None page_size response)))
      | Some MoralisC \<Rightarrow>
          (case moralis_get_contract_nfts (moralis_page net) of
             Raised \<Rightarrow> (self, Inl ClientRaised)
           | Returned response \<Rightarrow>
               (self, Inr (build_response (normalize net) c None page_size response)))
      | Some QuickNodeC \<Rightarrow>
          (self, Inr (build_response (normalize net) c None page_size
             \<lparr>p_nfts = [], p_pageKey = None, p_nextToken = None, p_page = None,
              p_cursor = None, p_has_more = None, p_total = None, p_totalCount = None,
              p_totalSupply = None\<rparr>)))"


section \<open>models.py and normalizer.py: collection statistics\<close>

text \<open>
  \<open>CollectionStats\<close>. Numbers of type \<open>float\<close> are real numbers here. The fields
  \<open>created_at\<close> and \<open>updated_at\<close> are never assigned by the code below and are left out.
\<close>

record CollectionStats =
  cs_contract_address :: string
  cs_chain :: Chain
  name :: "string option"
  symbol :: "string option"
  description :: "string option"
  total_supply :: "int option"
  total_owners :: "int option"
  floor_price :: "real option"
  floor_price_currency :: string
  average_price :: "real option"
  total_volume :: "real option"
  volume_24h :: "real option"
  volume_7d :: "real option"
  volume_30d :: "real option"
  sales_24h :: "int option"
  sales_7d :: "int option"
  sales_30d :: "int option"
  market_cap :: "real option"
  owners_percentage :: "real option"
  verified :: bool
  website :: "string option"
  twitter :: "string option"
  discord :: "string option"
  image_url :: "string option"
  banner_url :: "string option"

text \<open>The constructor with the defaults of the class.\<close>

definition new_stats :: "string \<Rightarrow> Chain \<Rightarrow> CollectionStats" where
  "new_stats addr c =
     \<lparr>cs_contract_address = addr, cs_chain = c, name = None, symbol = None,
      description = None, total_supply = None, total_owners = None, floor_price = None,
      floor_price_currency = ''ETH'', average_price = None, total_volume = None,
      volume_24h = None, volume_7d = None, volume_30d = None, sales_24h = None,
      sales_7d = None, sales_30d = None, market_cap = None, owners_percentage = None,
      verified = False, website = None, twitter = None, discord = None, image_url = None,
      banner_url = None\<rparr>"

definition truthy_real :: "real option \<Rightarrow> bool" where
  "truthy_real x = (case x of None \<Rightarrow> False | Some r \<Rightarrow> r \<noteq> 0)"

definition or_real :: "real option \<Rightarrow> real option \<Rightarrow> real option" where
  "or_real a b = (if truthy_real a then a else b)"

text \<open>
  A source's answer is a JSON dictionary: the empty one, or one whose keys read by the
  normalizer are the fields of a record (an absent key or a null is \<open>None\<close>; numbers
  have the type the normalizer converts them to).
\<close>

datatype 'p reply = EmptyDict | Dict 'p

definition keys_of :: "'p \<Rightarrow> 'p reply \<Rightarrow> 'p" where
  "keys_of no_keys r = (case r of EmptyDict \<Rightarrow> no_keys | Dict p \<Rightarrow> p)"

definition nonempty :: "'p reply \<Rightarrow> bool" where
  "nonempty r = (case r of EmptyDict \<Rightarrow> False | Dict p \<Rightarrow> True)"

text \<open>
  Pydantic's check of an \<open>HttpUrl\<close> is the parameter \<open>url_ok\<close>: a string assigned to an
  \<open>HttpUrl\<close> field at construction must pass it, else the constructor raises.
\<close>

datatype norm_error = ValidationError

definition make_url :: "(string \<Rightarrow> bool) \<Rightarrow> string option \<Rightarrow> string option" where
  "make_url url_ok x = (case x of None \<Rightarrow> None
     | Some u \<Rightarrow> if u \<noteq> [] \<and> url_ok u then Some u else None)"

definition field_url_ok :: "(string \<Rightarrow> bool) \<Rightarrow> string option \<Rightarrow> bool" where
  "field_url_ok url_ok x = (case x of None \<Rightarrow> True | Some u \<Rightarrow> url_ok u)"

subsection \<open>Alchemy\<close>

record alchemy_payload =
  ap_name :: "string option"
  ap_cm_name :: "string option"
  ap_os_collectionName :: "string option"
  ap_os_name :: "string option"
  ap_address :: "string option"
  ap_symbol :: "string option"
  ap_cm_symbol :: "string option"
  ap_os_safelistRequestStatus :: "string option"

definition alchemy_empty :: alchemy_payload where
  "alchemy_empty = \<lparr>ap_name = None, ap_cm_name = None, ap_os_collectionName = None,
     ap_os_name = None, ap_address = None, ap_symbol = None, ap_cm_symbol = None,
     ap_os_safelistRequestStatus = None\<rparr>"

definition normalize_alchemy_collection :: "alchemy_payload \<Rightarrow> Chain \<Rightarrow> CollectionStats" where
  "normalize_alchemy_collection data c =
     (new_stats (case ap_address data of None \<Rightarrow> [] | Some a \<Rightarrow> a) c)
       \<lparr>name := or_str (ap_name data) (or_str (ap_cm_name data)
                  (or_str (ap_os_collectionName data) (ap_os_name data))),
        symbol := or_str (ap_symbol data) (ap_cm_symbol data),
        verified := (ap_os_safelistRequestStatus data = Some ''verified'')\<rparr>"

subsection \<open>Helius\<close>

record helius_payload =
  hp_collection_address :: "string option"
  hp_name :: "string option"
  hp_description :: "string option"
  hp_image :: "string option"
  hp_totalSupply :: "int option"

definition helius_payload_empty :: helius_payload where
  "helius_payload_empty = \<lparr>hp_collection_address = None, hp_name = None,
     hp_description = None, hp_image = None, hp_totalSupply = None\<rparr>"

definition normalize_helius_collection ::
  "(string \<Rightarrow> bool) \<Rightarrow> helius_payload \<Rightarrow> Chain \<Rightarrow> norm_error + CollectionStats" where
  "normalize_helius_collection url_ok data c =
     (if \<not> field_url_ok url_ok (hp_image data) then Inl ValidationError
      else Inr ((new_stats (case hp_collection_address data of None \<Rightarrow> [] | Some a \<Rightarrow> a) c)
        \<lparr>name := hp_name data, description := hp_description data,
         image_url := hp_image data, total_supply := hp_totalSupply data\<rparr>))"

subsection \<open>Magic Eden\<close>

text \<open>
  \<open>ms_supply_fields\<close> holds the values under the keys \<open>totalSupply\<close>, \<open>supply\<close>,
  \<open>items\<close>, \<open>tokenCount\<close>, \<open>totalItems\<close>, \<open>itemCount\<close>, \<open>count\<close>, \<open>total\<close> in this order
  (\<open>mi_supply_fields\<close> has \<open>numberOfItems\<close> as a ninth), and the \<open>collection\<close> fields
  those under \<open>totalSupply\<close>, \<open>supply\<close>, \<open>items\<close>, \<open>tokenCount\<close> of the nested
  dictionary \<open>collection\<close> (the empty list without one).
\<close>

record magiceden_stats_payload =
  ms_floorPrice :: "real option"
  ms_volume24h :: "real option"
  ms_volume7d :: "real option"
  ms_volume30d :: "real option"
  ms_volumeAll :: "real option"
  ms_avgPrice24hr :: "real option"
  ms_sales24h :: "int option"
  ms_sales7d :: "int option"
  ms_sales30d :: "int option"
  ms_supply_fields :: "int option list"
  ms_collection_fields :: "int option list"

record magiceden_info_payload =
  mi_name :: "string option"
  mi_description :: "string option"
  mi_image :: "string option"
  mi_twitter :: "string option"
  mi_discord :: "string option"
  mi_website :: "string option"
  mi_isVerified :: "bool option"
  mi_supply_fields :: "int option list"
  mi_collection_fields :: "int option list"

definition magiceden_stats_empty :: magiceden_stats_payload where
  "magiceden_stats_empty = \<lparr>ms_floorPrice = None, ms_volume24h = None, ms_volume7d = None,
     ms_volume30d = None, ms_volumeAll = None, ms_avgPrice24hr = None, ms_sales24h = None,
     ms_sales7d = None, ms_sales30d = None, ms_supply_fields = [],
     ms_collection_fields = []\<rparr>"

definition magiceden_info_empty :: magiceden_info_payload where
  "magiceden_info_empty = \<lparr>mi_name = None, mi_description = None, mi_image = None,
     mi_twitter = None, mi_discord = None, mi_website = None, mi_isVerified = None,
     mi_supply_fields = [], mi_collection_fields = []\<rparr>"

text \<open>The first truthy value of a list of fields, as the \<open>for ... break\<close> loops find it.\<close>

fun first_truthy :: "int option list \<Rightarrow> int option" where
  "first_truthy [] = None"
| "first_truthy (x # xs) = (if truthy_int x then x else first_truthy xs)"

definition lamports :: "real option \<Rightarrow> real option" where
  "lamports x = (if truthy_real x then Some (the x / 1000000000) else None)"

definition normalize_magiceden_collection ::
  "(string \<Rightarrow> bool) \<Rightarrow> magiceden_stats_payload reply \<Rightarrow> magiceden_info_payload reply
     \<Rightarrow> string \<Rightarrow> Chain \<Rightarrow> CollectionStats" where
  "normalize_magiceden_collection url_ok stats_reply info_reply contract_addr c =
     (let stats_data = keys_of magiceden_stats_empty stats_reply;
          info_data = keys_of magiceden_info_empty info_reply;
          has_info = nonempty info_reply;
          floor = lamports (ms_floorPrice stats_data);
          v24 = lamports (ms_volume24h stats_data);
          v7 = lamports (ms_volume7d stats_data);
          v30a = lamports (ms_volume30d stats_data);
          tv = lamports (ms_volumeAll stats_data);
          v30 = (if truthy_real (ms_volumeAll stats_data) \<and> \<not> truthy_real v30a then tv else v30a);
          avg = lamports (ms_avgPrice24hr stats_data);
          web = (if has_info \<and> truthy_str (mi_website info_data)
                 then make_url url_ok (mi_website info_data) else None);
          img = (if has_info \<and> truthy_str (mi_image info_data)
                 then make_url url_ok (mi_image info_data) else None);
          t1 = first_truthy (ms_supply_fields stats_data);
          t2 = (if \<not> truthy_int t1 \<and> has_info
                then first_truthy (mi_supply_fields info_data) else t1);
          t3 = (if \<not> truthy_int t2 then first_truthy (ms_collection_fields stats_data) else t2);
          t4 = (if \<not> truthy_int t2 \<and> \<not> truthy_int t3 \<and> has_info
                then first_truthy (mi_collection_fields info_data) else t3)
      in (new_stats contract_addr c)
           \<lparr>name := (if has_info then mi_name info_data else None),
            description := (if has_info then mi_description info_data else None),
            image_url := img, total_supply := t4, floor_price := floor,
            floor_price_currency := ''SOL'', average_price := avg,
            volume_24h := v24, volume_7d := v7, volume_30d := v30,
            total_volume := or_real tv v30,
            sales_24h := ms_sales24h stats_data, sales_7d := ms_sales7d stats_data,
            sales_30d := ms_sales30d stats_data,
            twitter := (if has_info then mi_twitter info_data else None),
            discord := (if has_info then mi_discord info_data else None),
            website := web,
            verified := (if has_info then (case mi_isVerified info_data of
                            None \<Rightarrow> False | Some b \<Rightarrow> b) else False)\<rparr>)"

subsection \<open>Moralis and QuickNode\<close>

record moralis_payload =
  mp_total_supply :: "int option"
  mp_token_address :: "string option"
  mp_name :: "string option"
  mp_symbol :: "string option"
  mp_md_description :: "string option"
  mp_md_image :: "string option"

definition moralis_empty :: moralis_payload where
  "moralis_empty = \<lparr>mp_total_supply = None, mp_token_address = None, mp_name = None,
     mp_symbol = None, mp_md_description = None, mp_md_image = None\<rparr>"

definition normalize_moralis_collection ::
  "(string \<Rightarrow> bool) \<Rightarrow> moralis_payload \<Rightarrow> Chain \<Rightarrow> norm_error + CollectionStats" where
  "normalize_moralis_collection url_ok data c =
     (if \<not> field_url_ok url_ok (mp_md_image data) then Inl ValidationError
      else Inr ((new_stats (case mp_token_address data of None \<Rightarrow> [] | Some a \<Rightarrow> a) c)
        \<lparr>name := mp_name data, symbol := mp_symbol data,
         description := mp_md_description data, image_url := mp_md_image data,
         total_supply := mp_total_supply data\<rparr>))"

record quicknode_payload =
  qp_address :: "string option"
  qp_name :: "string option"
  qp_symbol :: "string option"
  qp_description :: "string option"
  qp_image :: "string option"
  qp_totalSupply :: "int option"

definition quicknode_empty :: quicknode_payload where
  "quicknode_empty = \<lparr>qp_address = None, qp_name = None, qp_symbol = None,
     qp_description = None, qp_image = None, qp_totalSupply = None\<rparr>"

definition normalize_quicknode_collection ::
  "(string \<Rightarrow> bool) \<Rightarrow> quicknode_payload \<Rightarrow> Chain \<Rightarrow> norm_error + CollectionStats" where
  "normalize_quicknode_collection url_ok data c =
     (if \<not> field_url_ok url_ok (qp_image data) then Inl ValidationError
      else Inr ((new_stats (case qp_address data of None \<Rightarrow> [] | Some a \<Rightarrow> a) c)
        \<lparr>name := qp_name data, symbol := qp_symbol data,
         description := qp_description data, image_url := qp_image data,
         total_supply := qp_totalSupply data\<rparr>))"


subsection \<open>Reservoir\<close>

text \<open>
  \<open>rp_floor_raw\<close> is \<open>floorAsk.price.amount.raw\<close> (\<open>None\<close> when \<open>floorAsk.price\<close> is
  falsy), \<open>rp_col_*\<close> are the keys of the nested dictionary \<open>collection\<close>, and the two
  metadata dictionaries (the one nested in \<open>collection\<close> and the top-level one) are
  \<open>None\<close> when absent or empty.
\<close>

record rv_metadata =
  md_imageUrl :: "string option"
  md_image :: "string option"
  md_website :: "string option"
  md_description :: "string option"
  md_name :: "string option"
  md_twitter :: "string option"
  md_discord :: "string option"
  md_tokenCount :: "int option"
  md_supply :: "int option"

record reservoir_payload =
  rp_floor_raw :: "real option"
  rp_currency_symbol :: "string option"
  rp_volume_1day :: "real option"
  rp_volume_7day :: "real option"
  rp_volume_30day :: "real option"
  rp_volume_allTime :: "real option"
  rp_sales_1day :: "int option"
  rp_sales_7day :: "int option"
  rp_sales_30day :: "int option"
  rp_ownerCount :: "int option"
  rp_tokenCount :: "int option"
  rp_supply :: "int option"
  rp_name :: "string option"
  rp_collectionName :: "string option"
  rp_col_name :: "string option"
  rp_col_collectionName :: "string option"
  rp_col_website :: "string option"
  rp_col_description :: "string option"
  rp_col_tokenCount :: "int option"
  rp_col_supply :: "int option"
  rp_col_isSpam :: "bool option"
  rp_col_metadata :: "rv_metadata option"
  rp_metadata :: "rv_metadata option"

definition md_empty :: rv_metadata where
  "md_empty = \<lparr>md_imageUrl = None, md_image = None, md_website = None,
     md_description = None, md_name = None, md_twitter = None, md_discord = None,
     md_tokenCount = None, md_supply = None\<rparr>"

fun first_truthy_str :: "string option list \<Rightarrow> string option" where
  "first_truthy_str [] = None"
| "first_truthy_str (x # xs) = (if truthy_str x then x else first_truthy_str xs)"

text \<open>
  \<open>normalize_reservoir_collection\<close>. Lines 534-542 compute \<open>market_cap\<close> and
  \<open>owners_percentage\<close> from Reservoir's own floor price, token count and owner count.
\<close>

definition normalize_reservoir_collection ::
  "(string \<Rightarrow> bool) \<Rightarrow> reservoir_payload \<Rightarrow> string \<Rightarrow> Chain \<Rightarrow> CollectionStats" where
  "normalize_reservoir_collection url_ok data contract_addr c =
     (let floor = (if truthy_real (rp_floor_raw data)
                   then Some (the (rp_floor_raw data) / 1000000000000000000) else None);
          currency = (if truthy_real (rp_floor_raw data)
                      then (case rp_currency_symbol data of None \<Rightarrow> ''ETH'' | Some x \<Rightarrow> x)
                      else ''ETH'');
          collection_md = (case rp_col_metadata data of Some m \<Rightarrow> m | None \<Rightarrow> md_empty);
          metadata = (case rp_col_metadata data of
                        Some m \<Rightarrow> m
                      | None \<Rightarrow> (case rp_metadata data of Some m \<Rightarrow> m | None \<Rightarrow> md_empty));
          img = make_url url_ok (or_str (md_imageUrl metadata) (md_image metadata));
          web = make_url url_ok (or_str (md_website metadata) (rp_col_website data));
          supply = first_truthy
                     [rp_tokenCount data, rp_col_tokenCount data, rp_supply data,
                      rp_col_supply data, rp_col_tokenCount data, md_tokenCount metadata,
                      md_supply metadata, md_tokenCount collection_md];
          owners = rp_ownerCount data;
          cap = (if truthy_real floor \<and> truthy_int supply
                 then Some (the floor * real_of_int (the supply)) else None);
          pct = (if truthy_int owners \<and> truthy_int supply
                 then Some (real_of_int (the owners) / real_of_int (the supply) * 100)
                 else None);
          collection_name = first_truthy_str
                     [md_name metadata, rp_col_name data, rp_name data, md_name collection_md,
                      rp_collectionName data, rp_col_collectionName data]
      in (new_stats contract_addr c)
           \<lparr>name := collection_name,
            description := or_str (md_description metadata) (rp_col_description data),
            image_url := img, total_supply := supply, total_owners := owners,
            floor_price := floor,
            floor_price_currency := (if truthy_real floor then currency else ''ETH''),
            total_volume := rp_volume_allTime data, volume_24h := rp_volume_1day data,
            volume_7d := rp_volume_7day data, volume_30d := rp_volume_30day data,
            sales_24h := rp_sales_1day data, sales_7d := rp_sales_7day data,
            sales_30d := rp_sales_30day data, market_cap := cap, owners_percentage := pct,
            website := web, twitter := md_twitter metadata, discord := md_discord metadata,
            verified := (rp_col_isSpam data = Some False)\<rparr>)"

subsection \<open>Selenium\<close>

record selenium_payload =
  sp_name :: "string option"
  sp_description :: "string option"
  sp_image_url :: "string option"
  sp_floor_price :: "real option"
  sp_total_supply :: "int option"
  sp_total_volume :: "real option"
  sp_total_owners :: "int option"


section \<open>scraper.py: NFTScout.get\_collection\_stats\<close>

text \<open>Lines 515-551: the Magic Eden record over the Helius base.\<close>

definition merge_magiceden :: "CollectionStats \<Rightarrow> CollectionStats \<Rightarrow> CollectionStats" where
  "merge_magiceden stats me_stats =
     (let s1 = (if truthy_int (total_supply me_stats)
                then stats\<lparr>total_supply := total_supply me_stats\<rparr> else stats);
          s2 = (if truthy_real (floor_price me_stats)
                then s1\<lparr>floor_price := floor_price me_stats\<rparr> else s1);
          s3 = (if floor_price_currency me_stats \<noteq> []
                then s2\<lparr>floor_price_currency := floor_price_currency me_stats\<rparr> else s2);
          s4 = (if truthy_real (total_volume me_stats)
                then s3\<lparr>total_volume := total_volume me_stats\<rparr> else s3);
          s5 = (if truthy_real (volume_24h me_stats)
                then s4\<lparr>volume_24h := volume_24h me_stats\<rparr> else s4);
          s6 = (if truthy_int (total_owners me_stats)
                then s5\<lparr>total_owners := total_owners me_stats\<rparr> else s5);
          s7 = (if truthy_str (description me_stats)
                then s6\<lparr>description := description me_stats\<rparr> else s6);
          s8 = (if truthy_str (image_url me_stats)
                then s7\<lparr>image_url := image_url me_stats\<rparr> else s7);
          s9 = (if truthy_str (twitter me_stats)
                then s8\<lparr>twitter := twitter me_stats\<rparr> else s8);
          s10 = (if truthy_str (discord me_stats)
                 then s9\<lparr>discord := discord me_stats\<rparr> else s9);
          s11 = (if truthy_str (website me_stats)
                 then s10\<lparr>website := website me_stats\<rparr> else s10)
      in if truthy_int (total_supply me_stats)
         then s11\<lparr>total_supply := total_supply me_stats\<rparr> else s11)"

text \<open>Lines 598-643: the Reservoir record over the Alchemy base.\<close>

definition merge_reservoir ::
  "string \<Rightarrow> CollectionStats \<Rightarrow> CollectionStats \<Rightarrow> CollectionStats" where
  "merge_reservoir contract_addr stats reservoir_stats =
     (let s1 = (if truthy_real (floor_price reservoir_stats)
                then stats\<lparr>floor_price := floor_price reservoir_stats\<rparr> else stats);
          s2 = (if floor_price_currency reservoir_stats \<noteq> []
                then s1\<lparr>floor_price_currency := floor_price_currency reservoir_stats\<rparr>
                else s1);
          s3 = (if truthy_real (total_volume reservoir_stats)
                then s2\<lparr>total_volume := total_volume reservoir_stats\<rparr> else s2);
          s4 = (if truthy_real (volume_24h reservoir_stats)
                then s3\<lparr>volume_24h := volume_24h reservoir_stats\<rparr> else s3);
          s5 = (if truthy_real (volume_7d reservoir_stats)
                then s4\<lparr>volume_7d := volume_7d reservoir_stats\<rparr> else s4);
          s6 = (if truthy_real (volume_30d reservoir_stats)
                then s5\<lparr>volume_30d := volume_30d reservoir_stats\<rparr> else s5);
          s7 = (if truthy_int (sales_24h reservoir_stats)
                then s6\<lparr>sales_24h := sales_24h reservoir_stats\<rparr> else s6);
          s8 = (if truthy_int (sales_7d reservoir_stats)
                then s7\<lparr>sales_7d := sales_7d reservoir_stats\<rparr> else s7);
          s9 = (if truthy_int (sales_30d reservoir_stats)
                then s8\<lparr>sales_30d := sales_30d reservoir_stats\<rparr> else s8);
          s10 = (if truthy_int (total_owners reservoir_stats)
                 then s9\<lparr>total_owners := total_owners reservoir_stats\<rparr> else s9);
          s11 = (if truthy_real (market_cap reservoir_stats)
                 then s10\<lparr>market_cap := market_cap reservoir_stats\<rparr> else s10);
          s12 = (if truthy_real (owners_percentage reservoir_stats)
                 then s11\<lparr>owners_percentage := owners_percentage reservoir_stats\<rparr>
                 else s11);
          s13 = (if \<not> truthy_str (description s12) \<and> truthy_str (description reservoir_stats)
                 then s12\<lparr>description := description reservoir_stats\<rparr> else s12);
          s14 = (if \<not> truthy_str (image_url s13) \<and> truthy_str (image_url reservoir_stats)
                 then s13\<lparr>image_url := image_url reservoir_stats\<rparr> else s13);
          s15 = (if \<not> truthy_str (twitter s14) \<and> truthy_str (twitter reservoir_stats)
                 then s14\<lparr>twitter := twitter reservoir_stats\<rparr> else s14);
          s16 = (if \<not> truthy_str (discord s15) \<and> truthy_str (discord reservoir_stats)
                 then s15\<lparr>discord := discord reservoir_stats\<rparr> else s15);
          s17 = (if \<not> truthy_str (website s16) \<and> truthy_str (website reservoir_stats)
                 then s16\<lparr>website := website reservoir_stats\<rparr> else s16);
          s18 = (if truthy_str (name reservoir_stats)
                    \<and> (\<not> truthy_str (name s17) \<or> name s17 = Some contract_addr)
                 then s17\<lparr>name := name reservoir_stats\<rparr> else s17)
      in if truthy_int (total_supply reservoir_stats)
         then s18\<lparr>total_supply := total_supply reservoir_stats\<rparr> else s18)"

text \<open>Lines 562-567 (Solana) and 652-659 (EVM): Moralis fills gaps.\<close>

definition merge_moralis_solana :: "CollectionStats \<Rightarrow> CollectionStats \<Rightarrow> CollectionStats" where
  "merge_moralis_solana stats moralis_stats =
     (let s1 = (if \<not> truthy_str (name stats) \<and> truthy_str (name moralis_stats)
                then stats\<lparr>name := name moralis_stats\<rparr> else stats);
          s2 = (if \<not> truthy_str (description s1) \<and> truthy_str (description moralis_stats)
                then s1\<lparr>description := description moralis_stats\<rparr> else s1)
      in if \<not> truthy_str (image_url s2) \<and> truthy_str (image_url moralis_stats)
         then s2\<lparr>image_url := image_url moralis_stats\<rparr> else s2)"

definition merge_moralis_evm :: "CollectionStats \<Rightarrow> CollectionStats \<Rightarrow> CollectionStats" where
  "merge_moralis_evm stats moralis_stats =
     (let s3 = merge_moralis_solana stats moralis_stats
      in if \<not> truthy_int (total_supply s3) \<and> truthy_int (total_supply moralis_stats)
         then s3\<lparr>total_supply := total_supply moralis_stats\<rparr> else s3)"

text \<open>Lines 670-673: QuickNode fills gaps.\<close>

definition merge_quicknode :: "CollectionStats \<Rightarrow> CollectionStats \<Rightarrow> CollectionStats" where
  "merge_quicknode stats qn_stats =
     (let s1 = (if \<not> truthy_str (name stats) \<and> truthy_str (name qn_stats)
                then stats\<lparr>name := name qn_stats\<rparr> else stats)
      in if \<not> truthy_str (description s1) \<and> truthy_str (description qn_stats)
         then s1\<lparr>description := description qn_stats\<rparr> else s1)"

text \<open>Lines 682-695: the scraped page fills what is still empty.\<close>

definition merge_selenium :: "CollectionStats \<Rightarrow> selenium_payload \<Rightarrow> CollectionStats" where
  "merge_selenium stats selenium_data =
     (let s1 = (if \<not> truthy_str (name stats) \<and> truthy_str (sp_name selenium_data)
                then stats\<lparr>name := sp_name selenium_data\<rparr> else stats);
          s2 = (if \<not> truthy_str (description s1) \<and> truthy_str (sp_description selenium_data)
                then s1\<lparr>description := sp_description selenium_data\<rparr> else s1);
          s3 = (if \<not> truthy_str (image_url s2) \<and> truthy_str (sp_image_url selenium_data)
                then s2\<lparr>image_url := sp_image_url selenium_data\<rparr> else s2);
          s4 = (if \<not> truthy_real (floor_price s3) \<and> truthy_real (sp_floor_price selenium_data)
                then s3\<lparr>floor_price := sp_floor_price selenium_data\<rparr> else s3);
          s5 = (if \<not> truthy_int (total_supply s4) \<and> truthy_int (sp_total_supply selenium_data)
                then s4\<lparr>total_supply := sp_total_supply selenium_data\<rparr> else s4);
          s6 = (if \<not> truthy_real (total_volume s5)
                    \<and> truthy_real (sp_total_volume selenium_data)
                then s5\<lparr>total_volume := sp_total_volume selenium_data\<rparr> else s5)
      in if \<not> truthy_int (total_owners s6) \<and> truthy_int (sp_total_owners selenium_data)
         then s6\<lparr>total_owners := sp_total_owners selenium_data\<rparr> else s6)"


text \<open>
  What each source's call does during one \<open>get_collection_stats\<close>: it raises or
  returns a dictionary.
\<close>

record stats_net =
  sn_helius :: "helius_payload reply outcome"
  sn_magiceden_stats :: "magiceden_stats_payload reply outcome"
  sn_magiceden_info :: "magiceden_info_payload reply outcome"
  sn_moralis :: "moralis_payload reply outcome"
  sn_alchemy :: "alchemy_payload reply outcome"
  sn_reservoir :: "reservoir_payload reply outcome"
  sn_quicknode :: "quicknode_payload reply outcome"
  sn_selenium :: "selenium_payload reply outcome"

text \<open>
  The dictionary \<open>results\<close> after the parallel calls (lines 401-491): a key is present
  when its task was created and its call returned; a call that raised leaves no key.
\<close>

record results =
  res_helius :: "helius_payload reply option"
  res_magiceden_stats :: "magiceden_stats_payload reply option"
  res_magiceden_info :: "magiceden_info_payload reply option"
  res_moralis :: "moralis_payload reply option"
  res_alchemy :: "alchemy_payload reply option"
  res_reservoir :: "reservoir_payload reply option"
  res_quicknode :: "quicknode_payload reply option"
  res_selenium :: "selenium_payload reply option"

definition stored :: "bool \<Rightarrow> 'r outcome \<Rightarrow> 'r option" where
  "stored task_created call =
     (if task_created then (case call of Raised \<Rightarrow> None | Returned r \<Rightarrow> Some r) else None)"

text \<open>\<open>str.isalnum\<close> on the code points below 256.\<close>

definition py_isalnum :: "char \<Rightarrow> bool" where
  "py_isalnum ch = (let n = (of_char ch :: nat) in
     (48 \<le> n \<and> n \<le> 57) \<or> (65 \<le> n \<and> n \<le> 90) \<or> (97 \<le> n \<and> n \<le> 122)
     \<or> n = 170 \<or> n = 178 \<or> n = 179 \<or> n = 181 \<or> n = 185 \<or> n = 186
     \<or> (188 \<le> n \<and> n \<le> 190) \<or> (192 \<le> n \<and> n \<le> 214) \<or> (216 \<le> n \<and> n \<le> 246)
     \<or> 248 \<le> n)"

text \<open>Lines 415-420: the Magic Eden symbol the two Magic Eden tasks are created for.\<close>

definition me_symbol_of :: "string option \<Rightarrow> string \<Rightarrow> string option" where
  "me_symbol_of magic_eden_symbol contract_addr =
     (if \<not> truthy_str magic_eden_symbol then
        (if length contract_addr < 32
            \<or> \<not> list_all (\<lambda>ch. py_isalnum ch \<or> ch = CHR ''-'' \<or> ch = CHR ''_'') contract_addr
         then Some contract_addr else magic_eden_symbol)
      else magic_eden_symbol)"

definition gather ::
  "stats_net \<Rightarrow> NFTScout \<Rightarrow> string \<Rightarrow> Chain \<Rightarrow> string option \<Rightarrow> string option \<Rightarrow> results" where
  "gather net self contract_addr c magic_eden_symbol collection_url =
     (let me = (c = SOLANA \<and> magiceden self
                \<and> truthy_str (me_symbol_of magic_eden_symbol contract_addr))
      in \<lparr>res_helius = stored (c = SOLANA \<and> helius self \<noteq> None) (sn_helius net),
          res_magiceden_stats = stored me (sn_magiceden_stats net),
          res_magiceden_info = stored me (sn_magiceden_info net),
          res_moralis = stored (moralis self) (sn_moralis net),
          res_alchemy = stored (c \<noteq> SOLANA \<and> alchemy self) (sn_alchemy net),
          res_reservoir = stored (c \<noteq> SOLANA \<and> reservoir self) (sn_reservoir net),
          res_quicknode = stored (c \<noteq> SOLANA \<and> quicknode self) (sn_quicknode net),
          res_selenium = stored (selenium_scraper self \<and> truthy_str collection_url)
                           (sn_selenium net)\<rparr>)"

text \<open>
  Lines 496-569: the Solana merge. \<open>stats\<close> is \<open>None\<close> or a record; an exception of the
  Helius normalizer is not caught, one of the Moralis normalizer is.
\<close>

definition merge_solana ::
  "(string \<Rightarrow> bool) \<Rightarrow> string \<Rightarrow> Chain \<Rightarrow> results \<Rightarrow> norm_error + CollectionStats option" where
  "merge_solana url_ok contract_addr c res =
     (case (case res_helius res of
              None \<Rightarrow> Inr None
            | Some helius_data \<Rightarrow>
                (case normalize_helius_collection url_ok
                        (keys_of helius_payload_empty helius_data) c of
                   Inl e \<Rightarrow> Inl e | Inr st \<Rightarrow> Inr (Some st))) of
        Inl e \<Rightarrow> Inl e
      | Inr stats0 \<Rightarrow>
          (let stats1 =
                 (if res_magiceden_stats res \<noteq> None \<or> res_magiceden_info res \<noteq> None then
                    (let me_stats_data = (case res_magiceden_stats res of
                                            None \<Rightarrow> EmptyDict | Some r \<Rightarrow> r);
                         me_info_data = (case res_magiceden_info res of
                                           None \<Rightarrow> EmptyDict | Some r \<Rightarrow> r)
                     in if nonempty me_stats_data \<or> nonempty me_info_data then
                          (let me_stats = normalize_magiceden_collection url_ok me_stats_data
                                            me_info_data contract_addr c
                           in case stats0 of
                                Some st \<Rightarrow> Some (merge_magiceden st me_stats)
                              | None \<Rightarrow> Some me_stats)
                        else stats0)
                  else stats0);
               stats2 =
                 (case (res_moralis res, stats1) of
                    (Some moralis_data, Some st) \<Rightarrow>
                      (case normalize_moralis_collection url_ok
                              (keys_of moralis_empty moralis_data) c of
                         Inl e \<Rightarrow> Some st
                       | Inr moralis_stats \<Rightarrow> Some (merge_moralis_solana st moralis_stats))
                  | _ \<Rightarrow> stats1)
           in Inr stats2))"

text \<open>Lines 571-675: the EVM merge; no normalizer on this path raises uncaught.\<close>

definition alchemy_base :: "alchemy_payload reply \<Rightarrow> string \<Rightarrow> Chain \<Rightarrow> CollectionStats" where
  "alchemy_base alchemy_data contract_addr c =
     (let data = keys_of alchemy_empty alchemy_data;
          st = normalize_alchemy_collection data c;
          st1 = (if \<not> truthy_str (name st) \<and> nonempty alchemy_data
                 then st\<lparr>name := or_str (ap_name data) (ap_cm_name data)\<rparr> else st)
      in if \<not> truthy_str (name st1) then st1\<lparr>name := Some contract_addr\<rparr> else st1)"

definition merge_evm ::
  "(string \<Rightarrow> bool) \<Rightarrow> string \<Rightarrow> Chain \<Rightarrow> results \<Rightarrow> CollectionStats option" where
  "merge_evm url_ok contract_addr c res =
     (let stats0 = (case res_alchemy res of
                      None \<Rightarrow> None
                    | Some alchemy_data \<Rightarrow> Some (alchemy_base alchemy_data contract_addr c));
          stats1 = (case (res_reservoir res, stats0) of
                      (Some (Dict reservoir_data), Some st) \<Rightarrow>
                        Some (merge_reservoir contract_addr st
                                (normalize_reservoir_collection url_ok reservoir_data
                                   contract_addr c))
                    | _ \<Rightarrow> stats0);
          stats2 = (case (res_moralis res, stats1) of
                      (Some moralis_data, Some st) \<Rightarrow>
                        (case normalize_moralis_collection url_ok
                                (keys_of moralis_empty moralis_data) c of
                           Inl e \<Rightarrow> Some st
                         | Inr moralis_stats \<Rightarrow> Some (merge_moralis_evm st moralis_stats))
                    | _ \<Rightarrow> stats1);
          stats3 = (case (res_quicknode res, stats2) of
                      (Some quicknode_data, Some st) \<Rightarrow>
                        (case normalize_quicknode_collection url_ok
                                (keys_of quicknode_empty quicknode_data) c of
                           Inl e \<Rightarrow> Some st
                         | Inr qn_stats \<Rightarrow> Some (merge_quicknode st qn_stats))
                    | _ \<Rightarrow> stats2)
      in stats3)"

text \<open>
  Lines 493-703: the whole merge, the Selenium overlay, and the minimal record when
  there is still none.
\<close>

definition merge_results ::
  "(string \<Rightarrow> bool) \<Rightarrow> string \<Rightarrow> Chain \<Rightarrow> results \<Rightarrow> norm_error + CollectionStats" where
  "merge_results url_ok contract_addr c res =
     (case (if c = SOLANA then merge_solana url_ok contract_addr c res
            else Inr (merge_evm url_ok contract_addr c res)) of
        Inl e \<Rightarrow> Inl e
      | Inr stats \<Rightarrow>
          (let stats' = (case (res_selenium res, stats) of
                           (Some (Dict selenium_data), Some st) \<Rightarrow>
                             Some (merge_selenium st selenium_data)
                         | _ \<Rightarrow> stats)
           in case stats' of
                Some st \<Rightarrow> Inr st
              | None \<Rightarrow> Inr ((new_stats contract_addr c)\<lparr>name := Some contract_addr\<rparr>)))"

text \<open>
  Lines 384-714. \<open>cached\<close> is what the storage holds under the key of this collection.
\<close>

definition get_collection_stats ::
  "(string \<Rightarrow> bool) \<Rightarrow> stats_net \<Rightarrow> NFTScout \<Rightarrow> CollectionStats option \<Rightarrow> string \<Rightarrow> Chain
     \<Rightarrow> string option \<Rightarrow> string option \<Rightarrow> norm_error + CollectionStats" where
  "get_collection_stats url_ok net self cached contract_addr c magic_eden_symbol collection_url =
     (case cached of
        Some st \<Rightarrow> Inr st
      | None \<Rightarrow>
          merge_results url_ok contract_addr c
            (gather net self contract_addr c magic_eden_symbol collection_url))"


text \<open>An \<open>HttpUrl\<close> check that accepts every string, for concrete runs.\<close>

definition accept_all :: "string \<Rightarrow> bool" where
  "accept_all u = True"

text \<open>
  The derived fields of a record agree with its inputs: \<open>market_cap\<close>, when set, is
  \<open>floor_price * total_supply\<close>, and \<open>owners_percentage\<close>, when set, is
  \<open>total_owners / total_supply * 100\<close>, with non-zero inputs.
\<close>

definition derived_ok :: "CollectionStats \<Rightarrow> bool" where
  "derived_ok st =
     ((market_cap st = None
       \<or> (\<exists>f n. floor_price st = Some f \<and> f \<noteq> 0 \<and> total_supply st = Some n \<and> n \<noteq> 0
              \<and> market_cap st = Some (f * real_of_int n)))
    \<and> (owners_percentage st = None
       \<or> (\<exists>k n. total_owners st = Some k \<and> k \<noteq> 0 \<and> total_supply st = Some n \<and> n \<noteq> 0
              \<and> owners_percentage st = Some (real_of_int k / real_of_int n * 100))))"


section \<open>HeliusClient.get\_collection\_nfts: properties\<close>

lemma helius_address_ok: "is_address ''J1S9H3QjnRtBbbuD4HjPV6RpRhwuk4zKbxsnCHuTgh9w''"
  by code_simp

text \<open>
  On a first page without cursor and with fewer items than the limit, a client that
  holds no total stores the number of items.
\<close>

lemma helius_first_page_exact:
  assumes "hc_collection_total st = None \<or> hc_current_collection st \<noteq> Some addr"
    and "is_address addr" and "py_lower ch = ''solana''"
    and "\<not> truthy_str cur" and "\<not> truthy_str (rpc_cursor r)"
    and "int (length (rpc_items r)) < min page_size 10000"
    and "rpc net = Returned r"
  shows "hc_collection_total (fst (helius_get_collection_nfts net st addr ch cur page_size))
         = Some (int (length (rpc_items r)))"
  using assms
  by (auto simp: helius_get_collection_nfts_def fetch_group_def Let_def actual_total_of_def
      store_direct_def store_total_def split: prod.splits)

text \<open>
  The path of a resolved symbol, on a first page that carries a cursor, leaves the total
  unknown, as the comment of lines 514-515 asks.
\<close>

lemma helius_resolved_path_keeps_total_unknown:
  "helius_get_collection_nfts
     \<lparr>rpc = Returned \<lparr>rpc_items = replicate 1000 (0::nat), rpc_cursor = Some ''page2'',
                       rpc_total = 1000\<rparr>,
      das = Raised, resolved = Some ''J1S9H3QjnRtBbbuD4HjPV6RpRhwuk4zKbxsnCHuTgh9w'',
      enrich = id\<rparr>
     \<lparr>hc_current_collection = None, hc_collection_total = None, hc_last_total = None\<rparr>
     ''mad_lads'' ''solana'' None 1000
   = (\<lparr>hc_current_collection = Some ''J1S9H3QjnRtBbbuD4HjPV6RpRhwuk4zKbxsnCHuTgh9w'',
       hc_collection_total = None, hc_last_total = None\<rparr>,
      Inr \<lparr>h_nfts = replicate 1000 0, h_page = Some ''page2'', h_cursor = Some ''page2'',
           h_totalCount = 1000, h_total = None, h_has_more = Some True\<rparr>)"
proof -
  have "\<not> is_address ''mad_lads''" by code_simp
  then show ?thesis
    by (simp add: helius_get_collection_nfts_def fetch_group_def Let_def
        py_lower_def py_lower_char_def actual_total_of_def truthy_str_def truthy_int_def
        store_resolved_def store_total_def rpc_has_more_def helius_result_def)
qed

text \<open>
  C1. The address path at a first request (no cursor, a client without total,
  \<open>page_size\<close> 1000) whose RPC answer holds 1000 items, a next-page cursor and
  \<open>total = 1000\<close>: the client stores the reported 1000 as \<open>_collection_total\<close> and
  \<open>_last_total\<close> and returns it as \<open>total\<close>, although the answer carries a cursor.
\<close>

theorem helius_cursor_page_stores_reported_total:
  "helius_get_collection_nfts
     \<lparr>rpc = Returned \<lparr>rpc_items = replicate 1000 (0::nat), rpc_cursor = Some ''page2'',
                       rpc_total = 1000\<rparr>,
      das = Raised, resolved = None, enrich = id\<rparr>
     \<lparr>hc_current_collection = None, hc_collection_total = None, hc_last_total = None\<rparr>
     ''J1S9H3QjnRtBbbuD4HjPV6RpRhwuk4zKbxsnCHuTgh9w'' ''solana'' None 1000
   = (\<lparr>hc_current_collection = Some ''J1S9H3QjnRtBbbuD4HjPV6RpRhwuk4zKbxsnCHuTgh9w'',
       hc_collection_total = Some 1000, hc_last_total = Some 1000\<rparr>,
      Inr \<lparr>h_nfts = replicate 1000 0, h_page = Some ''page2'', h_cursor = Some ''page2'',
           h_totalCount = 1000, h_total = Some 1000, h_has_more = Some True\<rparr>)"
  by (simp add: helius_get_collection_nfts_def helius_address_ok fetch_group_def Let_def
      py_lower_def py_lower_char_def actual_total_of_def truthy_str_def truthy_int_def
      store_direct_def store_total_def rpc_has_more_def helius_result_def)


section \<open>The counting walk: properties\<close>

lemma count_page_fields:
  "count_page st r = Continue st' \<or> count_page st r = Break st' \<Longrightarrow>
     page_count st' = page_count st + 1 \<and> chain_var st' = chain_var st
     \<and> fetches st' = fetches st
     \<and> total_counted st' = total_counted st + length (nfts r)
     \<and> emitted st' = emitted st \<and> seen_nfts st' = seen_nfts st
     \<and> total_scraped st' = total_scraped st \<and> error_sent st' = error_sent st
     \<and> collection_total st' = collection_total st \<and> cursor_var st' = cursor_var st"
  by (auto simp: count_page_def Let_def split: if_splits option.splits)

lemma count_loop_continue:
  assumes "page_count st < max_count_pages (chain_var st)"
    and "fetch (fetches st) (chain_var st) (current_cursor st) (page_size_of (chain_var st)) = Fetched r"
    and "count_page (st\<lparr>fetches := fetches st + 1\<rparr>) r = Continue st'"
  shows "count_loop fetch st = count_loop fetch st'"
  using assms by (subst count_loop.simps) simp

lemma count_loop_break:
  assumes "page_count st < max_count_pages (chain_var st)"
    and "fetch (fetches st) (chain_var st) (current_cursor st) (page_size_of (chain_var st)) = Fetched r"
    and "count_page (st\<lparr>fetches := fetches st + 1\<rparr>) r = Break st'"
  shows "count_loop fetch st = st'"
  using assms by (subst count_loop.simps) simp

lemma count_loop_raised:
  assumes "page_count st < max_count_pages (chain_var st)"
    and "fetch (fetches st) (chain_var st) (current_cursor st) (page_size_of (chain_var st)) = FetchRaised"
  shows "count_loop fetch st = st\<lparr>fetches := fetches st + 1\<rparr>"
  using assms by (subst count_loop.simps) simp

lemma count_loop_done:
  assumes "\<not> page_count st < max_count_pages (chain_var st)"
  shows "count_loop fetch st = st"
  using assms by (subst count_loop.simps) simp

lemma page_size_pos: "0 < page_size_of c" "3 < max_count_pages c"
  by (simp_all add: page_size_of_def max_count_pages_def)

text \<open>A full page without cursor: continue, with the last token id when there is one.\<close>
lemma count_page_full_no_cursor:
  assumes "length (nfts r) = page_size_of (chain_var st)" and "\<not> truthy_str (cursor r)"
    and "page_count st + 1 < max_count_pages (chain_var st) - 1"
  shows "count_page st r = Continue (st\<lparr>total_counted := total_counted st + page_size_of (chain_var st),
            page_count := page_count st + 1, consecutive_empty_pages := 0,
            current_cursor := (case last_token_id (last (nfts r)) of
                                 Some tid \<Rightarrow> Some tid | None \<Rightarrow> current_cursor st)\<rparr>)"
proof -
  have ne: "nfts r \<noteq> []" using assms(1) page_size_pos(1)[of "chain_var st"] by auto
  have n0: "length (nfts r) \<noteq> 0" using ne by simp
  show ?thesis
    using assms ne n0
    by (auto simp: count_page_def Let_def truthy_str_def split: option.splits)
qed

lemma count_page_partial_no_cursor:
  assumes "length (nfts r) < page_size_of (chain_var st)" and "\<not> truthy_str (cursor r)"
  shows "\<exists>k. count_page st r = Break (st\<lparr>total_counted := total_counted st + length (nfts r),
            page_count := page_count st + 1, consecutive_empty_pages := k\<rparr>)"
  using assms
  by (auto simp: count_page_def Let_def truthy_str_def split: option.splits)


lemma count_phase_start:
  "count_phase fetch (start_locals c ct0) =
     (if should_count c ct0 then
        (let st' = count_loop fetch (start_locals c ct0)
         in if total_counted st' > 0
            then st'\<lparr>collection_total := Some (int (total_counted st'))\<rparr> else st')
      else start_locals c ct0)"
  by (simp add: count_phase_def start_locals_def)

text \<open>
  C2. Against a provider that answers the first two requests of the counting walk with
  \<open>page_size\<close> items and no cursor and the third with \<open>page_size - 1\<close> items and no
  cursor, the walk makes exactly 3 requests: the second and third carry the token id of
  the last item seen as cursor (the previous cursor when that item has no usable id),
  and the count, which becomes the collection total, is
  \<open>2 * page_size + (page_size - 1)\<close>.
\<close>

theorem count_walk_three_pages:
  assumes ps: "ps = page_size_of c"
    and p0: "fetch 0 c None ps = Fetched r0"
    and f0: "length (nfts r0) = ps" "\<not> truthy_str (cursor r0)"
    and c1: "cur1 = (case last_token_id (last (nfts r0)) of Some tid \<Rightarrow> Some tid | None \<Rightarrow> None)"
    and p1: "fetch 1 c cur1 ps = Fetched r1"
    and f1: "length (nfts r1) = ps" "\<not> truthy_str (cursor r1)"
    and c2: "cur2 = (case last_token_id (last (nfts r1)) of Some tid \<Rightarrow> Some tid | None \<Rightarrow> cur1)"
    and p2: "fetch 2 c cur2 ps = Fetched r2"
    and f2: "length (nfts r2) = ps - 1" "\<not> truthy_str (cursor r2)"
  shows "fetches (count_loop fetch (start_locals c ct0)) = 3
       \<and> page_count (count_loop fetch (start_locals c ct0)) = 3
       \<and> total_counted (count_loop fetch (start_locals c ct0)) = 2 * ps + (ps - 1)
       \<and> (should_count c ct0 \<longrightarrow>
            collection_total (count_phase fetch (start_locals c ct0))
              = Some (int (2 * ps + (ps - 1))))"
proof -
  let ?s0 = "start_locals c ct0"
  have pos: "0 < ps" and mx: "3 < max_count_pages c"
    using ps page_size_pos by simp_all
  have mx99: "100 \<le> max_count_pages c" by (simp add: max_count_pages_def)
  define s1 where "s1 = ?s0\<lparr>fetches := 1, total_counted := ps, page_count := 1,
     consecutive_empty_pages := 0, current_cursor := cur1\<rparr>"
  define s2 where "s2 = s1\<lparr>fetches := 2, total_counted := ps + ps, page_count := 2,
     consecutive_empty_pages := 0, current_cursor := cur2\<rparr>"
  have e1: "count_page (?s0\<lparr>fetches := fetches ?s0 + 1\<rparr>) r0 = Continue s1"
  proof -
    have a: "length (nfts r0) = page_size_of (chain_var (?s0\<lparr>fetches := fetches ?s0 + 1\<rparr>))"
      using f0 ps by (simp add: start_locals_def)
    have b: "page_count (?s0\<lparr>fetches := fetches ?s0 + 1\<rparr>) + 1
             < max_count_pages (chain_var (?s0\<lparr>fetches := fetches ?s0 + 1\<rparr>)) - 1"
      using mx99 by (simp add: start_locals_def)
    show ?thesis
      unfolding count_page_full_no_cursor [OF a f0(2) b]
      by (simp add: start_locals_def s1_def c1 ps split: option.splits)
  qed
  have l1: "count_loop fetch ?s0 = count_loop fetch s1"
    by (rule count_loop_continue [OF _ _ e1]) (use p0 ps mx in \<open>simp_all add: start_locals_def\<close>)
  have e2: "count_page (s1\<lparr>fetches := fetches s1 + 1\<rparr>) r1 = Continue s2"
  proof -
    have a: "length (nfts r1) = page_size_of (chain_var (s1\<lparr>fetches := fetches s1 + 1\<rparr>))"
      using f1 ps by (simp add: start_locals_def s1_def)
    have b: "page_count (s1\<lparr>fetches := fetches s1 + 1\<rparr>) + 1
             < max_count_pages (chain_var (s1\<lparr>fetches := fetches s1 + 1\<rparr>)) - 1"
      using mx99 by (simp add: start_locals_def s1_def)
    show ?thesis
      unfolding count_page_full_no_cursor [OF a f1(2) b]
      by (simp add: start_locals_def s1_def s2_def c2 ps split: option.splits)
  qed
  have l2: "count_loop fetch s1 = count_loop fetch s2"
    by (rule count_loop_continue [OF _ _ e2])
      (use p1 ps mx in \<open>simp_all add: start_locals_def s1_def\<close>)
  from count_page_partial_no_cursor [of r2 "s2\<lparr>fetches := fetches s2 + 1\<rparr>"] f2 ps pos
  obtain k where e3: "count_page (s2\<lparr>fetches := fetches s2 + 1\<rparr>) r2 =
      Break (s2\<lparr>fetches := fetches s2 + 1, total_counted := total_counted s2 + (ps - 1),
               page_count := page_count s2 + 1, consecutive_empty_pages := k\<rparr>)"
    by (auto simp: s2_def s1_def start_locals_def)
  have l3: "count_loop fetch s2 = s2\<lparr>fetches := fetches s2 + 1,
               total_counted := total_counted s2 + (ps - 1),
               page_count := page_count s2 + 1, consecutive_empty_pages := k\<rparr>"
    by (rule count_loop_break [OF _ _ e3])
      (use p2 ps mx in \<open>simp_all add: start_locals_def s1_def s2_def\<close>)
  have fin: "count_loop fetch ?s0 = s2\<lparr>fetches := fetches s2 + 1,
               total_counted := total_counted s2 + (ps - 1),
               page_count := page_count s2 + 1, consecutive_empty_pages := k\<rparr>"
    using l1 l2 l3 by simp
  have a: "fetches (count_loop fetch ?s0) = 3" "page_count (count_loop fetch ?s0) = 3"
    "total_counted (count_loop fetch ?s0) = 2 * ps + (ps - 1)"
    by (simp_all add: fin s2_def s1_def)
  have b: "should_count c ct0 \<longrightarrow>
            collection_total (count_phase fetch ?s0) = Some (int (2 * ps + (ps - 1)))"
    using a(3) pos by (simp add: count_phase_start Let_def)
  from a b show ?thesis by simp
qed


theorem count_walk_three_pages_witness:
  "fetches (count_loop three_page_provider (start_locals ETHEREUM None)) = 3
 \<and> page_count (count_loop three_page_provider (start_locals ETHEREUM None)) = 3
 \<and> total_counted (count_loop three_page_provider (start_locals ETHEREUM None)) = 299
 \<and> collection_total (count_phase three_page_provider (start_locals ETHEREUM None)) = Some 299"
proof -
  have ps: "(100::nat) = page_size_of ETHEREUM" by (simp add: page_size_of_def)
  have t1: "last_token_id \<lparr>token_id = ''100'', contract_address = ''0xabc'', raw_metadata = None\<rparr>
            = Some ''100''" by code_simp
  have t2: "last_token_id \<lparr>token_id = ''200'', contract_address = ''0xabc'', raw_metadata = None\<rparr>
            = Some ''200''" by code_simp
  have p0: "three_page_provider 0 ETHEREUM None 100 = Fetched (page_of 100 ''100'')"
    by (simp add: three_page_provider_def)
  have f0: "length (nfts (page_of 100 ''100'')) = 100" "\<not> truthy_str (cursor (page_of 100 ''100''))"
    by (simp_all add: page_of_def truthy_str_def)
  have c1: "Some ''100'' = (case last_token_id (last (nfts (page_of 100 ''100''))) of
                              Some tid \<Rightarrow> Some tid | None \<Rightarrow> None)"
    by (simp add: page_of_def t1)
  have p1: "three_page_provider 1 ETHEREUM (Some ''100'') 100 = Fetched (page_of 100 ''200'')"
    by (simp add: three_page_provider_def)
  have f1: "length (nfts (page_of 100 ''200'')) = 100" "\<not> truthy_str (cursor (page_of 100 ''200''))"
    by (simp_all add: page_of_def truthy_str_def)
  have c2: "Some ''200'' = (case last_token_id (last (nfts (page_of 100 ''200''))) of
                              Some tid \<Rightarrow> Some tid | None \<Rightarrow> Some ''100'')"
    by (simp add: page_of_def t2)
  have p2: "three_page_provider 2 ETHEREUM (Some ''200'') 100 = Fetched (page_of 99 ''299'')"
    by (simp add: three_page_provider_def)
  have f2: "length (nfts (page_of 99 ''299'')) = 100 - 1" "\<not> truthy_str (cursor (page_of 99 ''299''))"
    by (simp_all add: page_of_def truthy_str_def)
  have sc: "should_count ETHEREUM None" by (simp add: should_count_def truthy_int_def)
  from count_walk_three_pages [where fetch = three_page_provider and ?ct0.0 = None, OF ps p0 f0 c1 p1 f1 c2 p2 f2] sc
  show ?thesis by simp
qed

lemma count_loop_fetches_bound:
  "fetches (count_loop fetch st) \<le> fetches st + (max_count_pages (chain_var st) - page_count st)"
proof (induction fetch st rule: count_loop.induct)
  case (1 fetch st)
  show ?case
  proof (cases "page_count st < max_count_pages (chain_var st)")
    case False
    then show ?thesis by (simp add: count_loop_done)
  next
    case lt: True
    show ?thesis
    proof (cases "fetch (fetches st) (chain_var st) (current_cursor st) (page_size_of (chain_var st))")
      case FetchRaised
      with lt show ?thesis by (simp add: count_loop_raised)
    next
      case (Fetched r)
      show ?thesis
      proof (cases "count_page (st\<lparr>fetches := fetches st + 1\<rparr>) r")
        case (Continue st')
        from count_page_fields [of "st\<lparr>fetches := fetches st + 1\<rparr>" r st'] Continue
        have f: "page_count st' = page_count st + 1" "chain_var st' = chain_var st"
          "fetches st' = fetches st + 1" by simp_all
        from "1.IH" [OF lt Fetched Continue] f lt
        show ?thesis by (simp add: count_loop_continue [where fetch=fetch, OF lt Fetched Continue])
      next
        case (Break st')
        from count_page_fields [of "st\<lparr>fetches := fetches st + 1\<rparr>" r st'] Break
        have f: "fetches st' = fetches st + 1" by simp
        with lt show ?thesis by (simp add: count_loop_break [where fetch=fetch, OF lt Fetched Break])
      qed
    qed
  qed
qed

lemma count_loop_keeps:
  "emitted (count_loop fetch st) = emitted st \<and> seen_nfts (count_loop fetch st) = seen_nfts st
   \<and> total_scraped (count_loop fetch st) = total_scraped st
   \<and> error_sent (count_loop fetch st) = error_sent st
   \<and> chain_var (count_loop fetch st) = chain_var st
   \<and> cursor_var (count_loop fetch st) = cursor_var st
   \<and> collection_total (count_loop fetch st) = collection_total st"
proof (induction fetch st rule: count_loop.induct)
  case (1 fetch st)
  show ?case
  proof (cases "page_count st < max_count_pages (chain_var st)")
    case False
    then show ?thesis by (simp add: count_loop_done)
  next
    case lt: True
    show ?thesis
    proof (cases "fetch (fetches st) (chain_var st) (current_cursor st) (page_size_of (chain_var st))")
      case FetchRaised
      with lt show ?thesis by (simp add: count_loop_raised)
    next
      case (Fetched r)
      show ?thesis
      proof (cases "count_page (st\<lparr>fetches := fetches st + 1\<rparr>) r")
        case (Continue st')
        from count_page_fields [of "st\<lparr>fetches := fetches st + 1\<rparr>" r st'] Continue
          "1.IH" [OF lt Fetched Continue]
        show ?thesis by (simp add: count_loop_continue [where fetch=fetch, OF lt Fetched Continue])
      next
        case (Break st')
        from count_page_fields [of "st\<lparr>fetches := fetches st + 1\<rparr>" r st'] Break
        show ?thesis by (simp add: count_loop_break [where fetch=fetch, OF lt Fetched Break])
      qed
    qed
  qed
qed

lemma count_page_cursor:
  assumes "nfts r \<noteq> []" and "truthy_str (cursor r)"
  shows "count_page st r = Continue (st\<lparr>total_counted := total_counted st + length (nfts r),
            page_count := page_count st + 1, consecutive_empty_pages := 0,
            current_cursor := cursor r\<rparr>)"
  using assms by (simp add: count_page_def Let_def)

lemma count_loop_full:
  "(\<forall>n cur. \<exists>r. fetch n (chain_var st) cur (page_size_of (chain_var st)) = Fetched r
       \<and> length (nfts r) = page_size_of (chain_var st) \<and> truthy_str (cursor r)) \<Longrightarrow>
   page_count st \<le> max_count_pages (chain_var st) \<Longrightarrow>
         page_count (count_loop fetch st) = max_count_pages (chain_var st)
       \<and> total_counted (count_loop fetch st)
           = total_counted st
             + (max_count_pages (chain_var st) - page_count st) * page_size_of (chain_var st)
       \<and> fetches (count_loop fetch st)
           = fetches st + (max_count_pages (chain_var st) - page_count st)"
proof (induction fetch st rule: count_loop.induct)
  case (1 fetch st)
  let ?c = "chain_var st"
  show ?case
  proof (cases "page_count st < max_count_pages ?c")
    case False
    with "1.prems" show ?thesis by (simp add: count_loop_done)
  next
    case lt: True
    from "1.prems"(1) obtain r where
      r: "fetch (fetches st) ?c (current_cursor st) (page_size_of ?c) = Fetched r"
      and len: "length (nfts r) = page_size_of ?c" and cur: "truthy_str (cursor r)"
      by blast
    have ne: "nfts r \<noteq> []" using len page_size_pos(1) [of ?c] by auto
    let ?st' = "st\<lparr>fetches := fetches st + 1, total_counted := total_counted st + length (nfts r),
            page_count := page_count st + 1, consecutive_empty_pages := 0,
            current_cursor := cursor r\<rparr>"
    have cp: "count_page (st\<lparr>fetches := fetches st + 1\<rparr>) r = Continue ?st'"
      by (simp add: count_page_cursor [OF ne cur])
    have ih: "page_count (count_loop fetch ?st') = max_count_pages (chain_var ?st')
       \<and> total_counted (count_loop fetch ?st')
           = total_counted ?st'
             + (max_count_pages (chain_var ?st') - page_count ?st') * page_size_of (chain_var ?st')
       \<and> fetches (count_loop fetch ?st')
           = fetches ?st' + (max_count_pages (chain_var ?st') - page_count ?st')"
      by (rule "1.IH" [OF lt r cp]) (use "1.prems" lt in simp_all)
    have m: "max_count_pages ?c - page_count st = Suc (max_count_pages ?c - (page_count st + 1))"
      using lt by simp
    show ?thesis
      unfolding count_loop_continue [where fetch=fetch, OF lt r cp]
      using ih len by (simp add: m)
  qed
qed


section \<open>The scraping walk and the page limits: properties\<close>

lemma process_nfts_keeps:
  "page_count (process_nfts xs st) = page_count st
 \<and> fetches (process_nfts xs st) = fetches st
 \<and> chain_var (process_nfts xs st) = chain_var st
 \<and> cursor_var (process_nfts xs st) = cursor_var st
 \<and> collection_total (process_nfts xs st) = collection_total st
 \<and> error_sent (process_nfts xs st) = error_sent st"
  by (induction xs arbitrary: st) simp_all

lemma decide_fields:
  "decide st r = Continue st' \<or> decide st r = Break st' \<Longrightarrow>
     fetches st' = fetches st \<and> chain_var st' = chain_var st
   \<and> emitted st' = emitted st \<and> seen_nfts st' = seen_nfts st
   \<and> total_scraped st' = total_scraped st \<and> error_sent st' = error_sent st
   \<and> collection_total st' = collection_total st"
  by (auto simp: decide_def Let_def split: if_splits)

lemma decide_continue_page:
  "decide st r = Continue st' \<Longrightarrow> page_count st' = page_count st + 1"
  by (auto simp: decide_def Let_def split: if_splits)

lemma try_chains_bound: "snd (try_chains fetch n cs) \<le> n + length cs \<and> n \<le> snd (try_chains fetch n cs)"
proof (induction cs arbitrary: n)
  case Nil
  show ?case by simp
next
  case (Cons a cs)
  from Cons [of "n + 1"] show ?case
    by (auto split: fetch_result.splits)
qed

lemma scrape_loop_continue:
  assumes "page_count st < max_pages" and "scrape_page fetch hv addr st = Continue st'"
  shows "scrape_loop fetch hv addr st = scrape_loop fetch hv addr st'"
  using assms by (subst scrape_loop.simps) simp

lemma scrape_loop_break:
  assumes "page_count st < max_pages" and "scrape_page fetch hv addr st = Break st'"
  shows "scrape_loop fetch hv addr st = st'"
  using assms by (subst scrape_loop.simps) simp

lemma scrape_loop_done:
  assumes "\<not> page_count st < max_pages"
  shows "scrape_loop fetch hv addr st = st"
  using assms by (subst scrape_loop.simps) simp

text \<open>One iteration of the scraping loop makes one request, and up to four probes
  after an empty first page.\<close>

lemma scrape_page_fetches:
  assumes "scrape_page fetch hv addr st = Continue st' \<or> scrape_page fetch hv addr st = Break st'"
  shows "fetches st' \<le> fetches st + 1 + (if page_count st = 0 then 4 else 0)"
proof (cases "fetch (fetches st) (chain_var st) (cursor_var st) (if chain_var st = SOLANA then 1000 else 100)")
  case FetchRaised
  with assms show ?thesis by (auto simp: scrape_page_def Let_def)
next
  case (Fetched r)
  have tc: "snd (try_chains fetch (fetches st + 1) chains_to_try) \<le> fetches st + 1 + 4"
    using try_chains_bound [of fetch "fetches st + 1" chains_to_try]
    by (simp add: chains_to_try_def)
  have d: "\<And>s. decide s r = Continue st' \<or> decide s r = Break st' \<Longrightarrow> fetches st' = fetches s"
    using decide_fields by blast
  from assms Fetched tc show ?thesis
    by (auto simp: scrape_page_def Let_def process_nfts_keeps
        split: if_splits prod.splits option.splits dest!: d)
qed

lemma scrape_page_continue_page:
  "scrape_page fetch hv addr st = Continue st' \<Longrightarrow> page_count st' = page_count st + 1"
  by (auto simp: scrape_page_def Let_def process_nfts_keeps
      split: fetch_result.splits if_splits prod.splits option.splits dest!: decide_continue_page)

lemma scrape_loop_fetches_bound:
  "fetches (scrape_loop fetch hv addr st)
     \<le> fetches st + (max_pages - page_count st) + (if page_count st = 0 then 4 else 0)"
proof (induction fetch hv addr st rule: scrape_loop.induct)
  case (1 fetch hv addr st)
  show ?case
  proof (cases "page_count st < max_pages")
    case False
    then show ?thesis by (simp add: scrape_loop_done)
  next
    case lt: True
    show ?thesis
    proof (cases "scrape_page fetch hv addr st")
      case (Continue st')
      have pc: "page_count st' = page_count st + 1"
        using scrape_page_continue_page [OF Continue] .
      have f: "fetches st' \<le> fetches st + 1 + (if page_count st = 0 then 4 else 0)"
        using scrape_page_fetches [of fetch hv addr st st'] Continue by simp
      from "1.IH" [OF lt Continue] pc
      have "fetches (scrape_loop fetch hv addr st') \<le> fetches st' + (max_pages - (page_count st + 1))"
        by simp
      with f lt show ?thesis
        unfolding scrape_loop_continue [OF lt Continue] by (simp split: if_splits)
    next
      case (Break st')
      have f: "fetches st' \<le> fetches st + 1 + (if page_count st = 0 then 4 else 0)"
        using scrape_page_fetches [of fetch hv addr st st'] Break by simp
      with lt show ?thesis
        unfolding scrape_loop_break [OF lt Break] by (simp split: if_splits)
    qed
  qed
qed


lemma decide_full:
  assumes "length (nfts r) \<ge> page_size_of (chain_var st)"
  shows "\<exists>st'. decide st r = Continue st' \<and> page_count st' = page_count st + 1
          \<and> chain_var st' = chain_var st \<and> error_sent st' = error_sent st
          \<and> fetches st' = fetches st"
  using assms by (auto simp: decide_def Let_def page_size_of_def split: if_splits)

lemma scrape_page_full:
  assumes "fetch (fetches st) (chain_var st) (cursor_var st) (page_size_of (chain_var st)) = Fetched r"
    and "length (nfts r) = page_size_of (chain_var st)"
  shows "\<exists>st'. scrape_page fetch hv addr st = Continue st' \<and> page_count st' = page_count st + 1
          \<and> chain_var st' = chain_var st \<and> error_sent st' = error_sent st
          \<and> fetches st' = fetches st + 1"
proof -
  have ne: "nfts r \<noteq> []" using assms(2) page_size_pos(1) [of "chain_var st"] by auto
  have ps: "(if chain_var st = SOLANA then 1000 else 100) = page_size_of (chain_var st)"
    by (simp add: page_size_of_def)
  let ?s2 = "process_nfts (nfts r) (st\<lparr>fetches := fetches st + 1,
      collection_total := find_total (chain_var st) (hv (fetches st + 1)) r (collection_total st)\<rparr>)"
  have sp: "scrape_page fetch hv addr st = decide ?s2 r"
    using assms(1) ne by (simp add: scrape_page_def Let_def ps)
  have "length (nfts r) \<ge> page_size_of (chain_var ?s2)"
    using assms(2) by (simp add: process_nfts_keeps)
  from decide_full [OF this] show ?thesis
    unfolding sp by (auto simp: process_nfts_keeps)
qed

lemma scrape_loop_full:
  "(\<forall>n cur. \<exists>r. fetch n (chain_var st) cur (page_size_of (chain_var st)) = Fetched r
       \<and> length (nfts r) = page_size_of (chain_var st) \<and> truthy_str (cursor r)) \<Longrightarrow>
   page_count st \<le> max_pages \<Longrightarrow>
     page_count (scrape_loop fetch hv addr st) = max_pages
   \<and> error_sent (scrape_loop fetch hv addr st) = error_sent st
   \<and> fetches (scrape_loop fetch hv addr st) = fetches st + (max_pages - page_count st)"
proof (induction fetch hv addr st rule: scrape_loop.induct)
  case (1 fetch hv addr st)
  show ?case
  proof (cases "page_count st < max_pages")
    case False
    with "1.prems" show ?thesis by (simp add: scrape_loop_done)
  next
    case lt: True
    from "1.prems"(1) obtain r where
      r: "fetch (fetches st) (chain_var st) (cursor_var st) (page_size_of (chain_var st)) = Fetched r"
      and len: "length (nfts r) = page_size_of (chain_var st)"
      by blast
    from scrape_page_full [where fetch = fetch and st = st and hv = hv and addr = addr, OF r len] obtain st' where
      sp: "scrape_page fetch hv addr st = Continue st'"
      and f: "page_count st' = page_count st + 1" "chain_var st' = chain_var st"
        "error_sent st' = error_sent st" "fetches st' = fetches st + 1"
      by blast
    have ih: "page_count (scrape_loop fetch hv addr st') = max_pages
       \<and> error_sent (scrape_loop fetch hv addr st') = error_sent st'
       \<and> fetches (scrape_loop fetch hv addr st') = fetches st' + (max_pages - page_count st')"
      by (rule "1.IH" [OF lt sp]) (use "1.prems" lt f in simp_all)
    have m: "max_pages - page_count st = Suc (max_pages - (page_count st + 1))"
      using lt by simp
    show ?thesis
      unfolding scrape_loop_continue [OF lt sp]
      using ih f by (simp add: m)
  qed
qed


lemma count_loop_page_bound:
  "page_count st \<le> max_count_pages (chain_var st) \<Longrightarrow>
   page_count (count_loop fetch st) \<le> max_count_pages (chain_var st)"
proof (induction fetch st rule: count_loop.induct)
  case (1 fetch st)
  show ?case
  proof (cases "page_count st < max_count_pages (chain_var st)")
    case False
    with "1.prems" show ?thesis by (simp add: count_loop_done)
  next
    case lt: True
    show ?thesis
    proof (cases "fetch (fetches st) (chain_var st) (current_cursor st) (page_size_of (chain_var st))")
      case FetchRaised
      with lt show ?thesis by (simp add: count_loop_raised)
    next
      case (Fetched r)
      show ?thesis
      proof (cases "count_page (st\<lparr>fetches := fetches st + 1\<rparr>) r")
        case (Continue st')
        from count_page_fields [of "st\<lparr>fetches := fetches st + 1\<rparr>" r st'] Continue
        have f: "page_count st' = page_count st + 1" "chain_var st' = chain_var st" by simp_all
        from "1.IH" [OF lt Fetched Continue] f lt
        show ?thesis by (simp add: count_loop_continue [where fetch=fetch, OF lt Fetched Continue])
      next
        case (Break st')
        from count_page_fields [of "st\<lparr>fetches := fetches st + 1\<rparr>" r st'] Break
        have f: "page_count st' = page_count st + 1" "chain_var st' = chain_var st" by simp_all
        with lt show ?thesis by (simp add: count_loop_break [where fetch=fetch, OF lt Fetched Break])
      qed
    qed
  qed
qed

lemma count_phase_facts:
  "chain_var (count_phase fetch (start_locals c ct0)) = c
 \<and> page_count (count_phase fetch (start_locals c ct0)) \<le> max_count_pages c
 \<and> fetches (count_phase fetch (start_locals c ct0)) \<le> max_count_pages c
 \<and> error_sent (count_phase fetch (start_locals c ct0)) = False
 \<and> emitted (count_phase fetch (start_locals c ct0)) = []
 \<and> seen_nfts (count_phase fetch (start_locals c ct0)) = {}
 \<and> total_scraped (count_phase fetch (start_locals c ct0)) = 0"
proof -
  let ?s0 = "start_locals c ct0"
  have s0: "chain_var ?s0 = c" "page_count ?s0 = 0" "fetches ?s0 = 0" "error_sent ?s0 = False"
    "emitted ?s0 = []" "seen_nfts ?s0 = {}" "total_scraped ?s0 = 0"
    by (simp_all add: start_locals_def)
  have k: "chain_var (count_loop fetch ?s0) = c" "error_sent (count_loop fetch ?s0) = False"
    "emitted (count_loop fetch ?s0) = []" "seen_nfts (count_loop fetch ?s0) = {}"
    "total_scraped (count_loop fetch ?s0) = 0"
    using count_loop_keeps [of fetch ?s0] s0 by simp_all
  have p: "page_count (count_loop fetch ?s0) \<le> max_count_pages c"
    using count_loop_page_bound [of ?s0 fetch] s0 by simp
  have f: "fetches (count_loop fetch ?s0) \<le> max_count_pages c"
    using count_loop_fetches_bound [of fetch ?s0] s0 by simp
  show ?thesis
    using s0 k p f by (simp add: count_phase_start Let_def)
qed

lemma max_count_le_max_pages: "max_count_pages c \<le> max_pages"
  by (simp add: max_count_pages_def max_pages_def)

text \<open>
  C7. Every walk ends after a bounded number of requests, whatever the provider answers:
  the counting walk makes at most \<open>max_count_pages\<close> requests (200 on EVM chains, 100 on
  Solana), the scraping walk at most \<open>max_pages\<close> = 10000 and four probes of other
  chains after an empty first page. Against a provider that answers every request with a
  full page and a cursor both loops run up to their limit; no error message is sent, and
  the counting phase reports the items counted so far as the collection total.
\<close>

theorem walks_stop_at_page_limit:
  "fetches (count_loop fetch (start_locals c ct0)) \<le> max_count_pages c
 \<and> fetches (scrape_loop fetch hv addr (start_locals c ct0)) \<le> max_pages + 4
 \<and> fetches (scrape_collection fetch hv addr c ct0) \<le> max_count_pages c + max_pages + 4
 \<and> ((\<forall>n cur. \<exists>r. fetch n c cur (page_size_of c) = Fetched r
          \<and> length (nfts r) = page_size_of c \<and> truthy_str (cursor r)) \<longrightarrow>
      page_count (count_loop fetch (start_locals c ct0)) = max_count_pages c
    \<and> \<not> error_sent (count_loop fetch (start_locals c ct0))
    \<and> (should_count c ct0 \<longrightarrow>
         collection_total (count_phase fetch (start_locals c ct0))
           = Some (int (max_count_pages c * page_size_of c)))
    \<and> page_count (scrape_collection fetch hv addr c ct0) = max_pages
    \<and> \<not> error_sent (scrape_collection fetch hv addr c ct0))"
proof (intro conjI impI)
  let ?s0 = "start_locals c ct0"
  have s0: "chain_var ?s0 = c" "page_count ?s0 = 0" "fetches ?s0 = 0" "error_sent ?s0 = False"
    "total_counted ?s0 = 0"
    by (simp_all add: start_locals_def)
  show "fetches (count_loop fetch ?s0) \<le> max_count_pages c"
    using count_loop_fetches_bound [of fetch ?s0] s0 by simp
  show "fetches (scrape_loop fetch hv addr ?s0) \<le> max_pages + 4"
    using scrape_loop_fetches_bound [of fetch hv addr ?s0] s0 by simp
  let ?s1 = "count_phase fetch ?s0"
  note cf = count_phase_facts [of fetch c ct0]
  show "fetches (scrape_collection fetch hv addr c ct0) \<le> max_count_pages c + max_pages + 4"
  proof -
    have "fetches (scrape_loop fetch hv addr ?s1)
            \<le> fetches ?s1 + (max_pages - page_count ?s1) + (if page_count ?s1 = 0 then 4 else 0)"
      by (rule scrape_loop_fetches_bound)
    also have "\<dots> \<le> max_count_pages c + max_pages + 4"
      using cf by (auto split: if_splits)
    finally show ?thesis by (simp add: scrape_collection_def)
  qed
  assume full: "\<forall>n cur. \<exists>r. fetch n c cur (page_size_of c) = Fetched r
          \<and> length (nfts r) = page_size_of c \<and> truthy_str (cursor r)"
  have cl: "page_count (count_loop fetch ?s0) = max_count_pages c
       \<and> total_counted (count_loop fetch ?s0) = max_count_pages c * page_size_of c
       \<and> fetches (count_loop fetch ?s0) = max_count_pages c"
    using count_loop_full [of fetch ?s0] full s0 by simp
  then show "page_count (count_loop fetch ?s0) = max_count_pages c" by simp
  show "\<not> error_sent (count_loop fetch ?s0)"
    using count_loop_keeps [of fetch ?s0] s0 by simp
  have pos: "0 < max_count_pages c * page_size_of c"
    using page_size_pos [of c] by simp
  show "collection_total ?s1 = Some (int (max_count_pages c * page_size_of c))"
    if "should_count c ct0"
    using that cl pos by (simp add: count_phase_start Let_def)
  have sl: "page_count (scrape_loop fetch hv addr ?s1) = max_pages
      \<and> error_sent (scrape_loop fetch hv addr ?s1) = error_sent ?s1
      \<and> fetches (scrape_loop fetch hv addr ?s1) = fetches ?s1 + (max_pages - page_count ?s1)"
    by (rule scrape_loop_full) (use full cf max_count_le_max_pages [of c] in auto)
  then show "page_count (scrape_collection fetch hv addr c ct0) = max_pages"
    by (simp add: scrape_collection_def)
  show "\<not> error_sent (scrape_collection fetch hv addr c ct0)"
    using sl cf by (simp add: scrape_collection_def)
qed

lemma full_provider_full:
  "\<forall>n cur. \<exists>r. full_provider n c cur (page_size_of c) = Fetched r
          \<and> length (nfts r) = page_size_of c \<and> truthy_str (cursor r)"
  by (simp add: full_provider_def full_page_def truthy_str_def)

theorem walks_stop_at_page_limit_witness:
  "page_count (count_loop full_provider (start_locals SOLANA None)) = 100
 \<and> \<not> error_sent (count_loop full_provider (start_locals SOLANA None))
 \<and> collection_total (count_phase full_provider (start_locals SOLANA None)) = Some 100000
 \<and> page_count (scrape_collection full_provider no_helius ''0xabc'' SOLANA None) = 10000
 \<and> \<not> error_sent (scrape_collection full_provider no_helius ''0xabc'' SOLANA None)"
proof -
  have sc: "should_count SOLANA None" by (simp add: should_count_def truthy_int_def)
  from walks_stop_at_page_limit [where fetch = full_provider and c = SOLANA and ?ct0.0 = None
      and hv = no_helius and addr = "''0xabc''"]
    full_provider_full [of SOLANA] sc
  show ?thesis
    by (simp add: max_count_pages_def page_size_of_def max_pages_def)
qed

text \<open>
  Against the infinite collection the counting walk of an EVM chain stops at 200 pages
  and reports 20000 as the collection total: the total is a number, not unknown.
\<close>

theorem count_walk_cap_counterexample:
  "page_count (count_phase full_provider (start_locals ETHEREUM None)) = 200
 \<and> fetches (count_phase full_provider (start_locals ETHEREUM None)) = 200
 \<and> collection_total (count_phase full_provider (start_locals ETHEREUM None)) = Some 20000"
proof -
  let ?s0 = "start_locals ETHEREUM None"
  have s0: "chain_var ?s0 = ETHEREUM" "page_count ?s0 = 0" "fetches ?s0 = 0"
    "total_counted ?s0 = 0"
    by (simp_all add: start_locals_def)
  have "page_count (count_loop full_provider ?s0) = max_count_pages ETHEREUM
       \<and> total_counted (count_loop full_provider ?s0)
            = total_counted ?s0 + (max_count_pages ETHEREUM - page_count ?s0) * page_size_of ETHEREUM
       \<and> fetches (count_loop full_provider ?s0)
            = fetches ?s0 + (max_count_pages ETHEREUM - page_count ?s0)"
    using count_loop_full [of full_provider ?s0] full_provider_full [of ETHEREUM] s0
    by simp
  then have cl: "page_count (count_loop full_provider ?s0) = 200"
    "total_counted (count_loop full_provider ?s0) = 20000"
    "fetches (count_loop full_provider ?s0) = 200"
    by (simp_all add: s0 max_count_pages_def page_size_of_def)
  have sc: "should_count ETHEREUM None" by (simp add: should_count_def truthy_int_def)
  show ?thesis
    using cl sc by (simp add: count_phase_start Let_def)
qed


section \<open>Empty pages: properties\<close>

lemma count_page_empty_cursor:
  assumes "nfts r = []" and "truthy_str (cursor r)" and "consecutive_empty_pages st = 0"
  shows "count_page st r = Continue (st\<lparr>page_count := page_count st + 1,
            consecutive_empty_pages := 1, current_cursor := cursor r\<rparr>)"
  using assms by (simp add: count_page_def Let_def)

lemma count_page_empty_second:
  assumes "nfts r = []" and "consecutive_empty_pages st \<ge> 1"
  shows "count_page st r = Break (st\<lparr>page_count := page_count st + 1,
            consecutive_empty_pages := consecutive_empty_pages st + 1\<rparr>)"
  using assms by (simp add: count_page_def Let_def)

lemma count_page_empty_no_cursor:
  assumes "nfts r = []" and "\<not> truthy_str (cursor r)"
  shows "count_page st r = Break (st\<lparr>page_count := page_count st + 1,
            consecutive_empty_pages := consecutive_empty_pages st + 1\<rparr>)"
  using assms page_size_pos(1) [of "chain_var st"]
  by (auto simp: count_page_def Let_def truthy_str_def)

lemma scrape_page_empty:
  assumes "fetch (fetches st) (chain_var st) (cursor_var st)
             (if chain_var st = SOLANA then 1000 else 100) = Fetched r"
    and "nfts r = []"
    and "page_count st > 0 \<or> chain_var st \<noteq> ETHEREUM \<or> \<not> startswith_0x addr"
  shows "\<exists>st'. scrape_page fetch hv addr st = Break st' \<and> fetches st' = fetches st + 1
           \<and> emitted st' = emitted st"
  using assms by (auto simp: scrape_page_def Let_def)

text \<open>
  C3. In the counting walk an empty page that carries a cursor is followed by one more
  request with that cursor, and the second consecutive empty page ends the walk; an
  empty page without a cursor ends the walk at once. In the scraping walk an empty page
  ends the walk at once (unless it is the first page of a 0x address on Ethereum, after
  which the other EVM chains are probed).
\<close>

theorem empty_page_ends_walk:
  "(nfts r = [] \<and> truthy_str (cursor r) \<and> consecutive_empty_pages st = 0 \<longrightarrow>
      count_page st r = Continue (st\<lparr>page_count := page_count st + 1,
            consecutive_empty_pages := 1, current_cursor := cursor r\<rparr>))
 \<and> (nfts r = [] \<and> (consecutive_empty_pages st \<ge> 1 \<or> \<not> truthy_str (cursor r)) \<longrightarrow>
      count_page st r = Break (st\<lparr>page_count := page_count st + 1,
            consecutive_empty_pages := consecutive_empty_pages st + 1\<rparr>))
 \<and> (fetch (fetches st) (chain_var st) (cursor_var st)
             (if chain_var st = SOLANA then 1000 else 100) = Fetched r
      \<and> nfts r = []
      \<and> (page_count st > 0 \<or> chain_var st \<noteq> ETHEREUM \<or> \<not> startswith_0x addr) \<longrightarrow>
      (\<exists>st'. scrape_page fetch hv addr st = Break st' \<and> fetches st' = fetches st + 1
           \<and> emitted st' = emitted st))"
  using count_page_empty_cursor [of r st] count_page_empty_second [of r st]
    count_page_empty_no_cursor [of r st]
    scrape_page_empty [of fetch st r addr hv]
  by blast

text \<open>
  Against a provider that answers every request with an empty page without cursor, the
  counting walk and the scraping walk make one request each: the empty page is not
  requested again.
\<close>

theorem empty_page_no_retry_counterexample:
  "fetches (count_loop empty_provider (start_locals ETHEREUM None)) = 1
 \<and> page_count (count_loop empty_provider (start_locals ETHEREUM None)) = 1
 \<and> consecutive_empty_pages (count_loop empty_provider (start_locals ETHEREUM None)) = 1
 \<and> fetches (scrape_loop empty_provider no_helius ''0xabc'' (start_locals POLYGON None)) = 1"
proof -
  let ?s0 = "start_locals ETHEREUM None"
  have lt: "page_count ?s0 < max_count_pages (chain_var ?s0)"
    by (simp add: start_locals_def max_count_pages_def)
  have f: "empty_provider (fetches ?s0) (chain_var ?s0) (current_cursor ?s0)
             (page_size_of (chain_var ?s0)) = Fetched empty_page"
    by (simp add: empty_provider_def)
  have b: "count_page (?s0\<lparr>fetches := fetches ?s0 + 1\<rparr>) empty_page
           = Break (?s0\<lparr>fetches := fetches ?s0 + 1, page_count := 1,
                        consecutive_empty_pages := 1\<rparr>)"
    using count_page_empty_no_cursor [of empty_page "?s0\<lparr>fetches := fetches ?s0 + 1\<rparr>"]
    by (simp add: empty_page_def truthy_str_def start_locals_def)
  have c: "count_loop empty_provider ?s0
           = ?s0\<lparr>fetches := fetches ?s0 + 1, page_count := 1, consecutive_empty_pages := 1\<rparr>"
    by (rule count_loop_break [where fetch = empty_provider, OF lt f b])
  let ?p0 = "start_locals POLYGON None"
  have lt2: "page_count ?p0 < max_pages"
    by (simp add: start_locals_def max_pages_def)
  have sp: "scrape_page empty_provider no_helius ''0xabc'' ?p0
            = Break (?p0\<lparr>fetches := 1\<rparr>)"
    by (simp add: scrape_page_def Let_def empty_provider_def empty_page_def start_locals_def
        find_total_def truthy_int_def no_helius_def)
  have d: "scrape_loop empty_provider no_helius ''0xabc'' ?p0 = ?p0\<lparr>fetches := 1\<rparr>"
    by (rule scrape_loop_break [OF lt2 sp])
  show ?thesis
    unfolding c d by (simp add: start_locals_def)
qed


theorem empty_page_ends_walk_witness:
  "count_page (start_locals ETHEREUM None) (empty_page\<lparr>cursor := Some ''c''\<rparr>)
     = Continue ((start_locals ETHEREUM None)\<lparr>page_count := 1,
            consecutive_empty_pages := 1, current_cursor := Some ''c''\<rparr>)
 \<and> count_page (start_locals ETHEREUM None) empty_page
     = Break ((start_locals ETHEREUM None)\<lparr>page_count := 1, consecutive_empty_pages := 1\<rparr>)
 \<and> (\<exists>st'. scrape_page empty_provider no_helius ''0xabc'' (start_locals POLYGON None) = Break st'
        \<and> fetches st' = 1 \<and> emitted st' = [])"
proof -
  have h1: "nfts (empty_page\<lparr>cursor := Some ''c''\<rparr>) = []
      \<and> truthy_str (cursor (empty_page\<lparr>cursor := Some ''c''\<rparr>))
      \<and> consecutive_empty_pages (start_locals ETHEREUM None) = 0"
    by (simp add: empty_page_def truthy_str_def start_locals_def)
  have h2: "nfts empty_page = []
      \<and> (consecutive_empty_pages (start_locals ETHEREUM None) \<ge> 1
          \<or> \<not> truthy_str (cursor empty_page))"
    by (simp add: empty_page_def truthy_str_def)
  have h3: "empty_provider (fetches (start_locals POLYGON None))
       (chain_var (start_locals POLYGON None)) (cursor_var (start_locals POLYGON None))
       (if chain_var (start_locals POLYGON None) = SOLANA then 1000 else 100) = Fetched empty_page
      \<and> nfts empty_page = []
      \<and> (page_count (start_locals POLYGON None) > 0
          \<or> chain_var (start_locals POLYGON None) \<noteq> ETHEREUM \<or> \<not> startswith_0x ''0xabc'')"
    by (simp add: empty_provider_def empty_page_def start_locals_def)
  note T = empty_page_ends_walk
  have c1: "count_page (start_locals ETHEREUM None) (empty_page\<lparr>cursor := Some ''c''\<rparr>)
     = Continue ((start_locals ETHEREUM None)\<lparr>page_count :=
            page_count (start_locals ETHEREUM None) + 1,
            consecutive_empty_pages := 1,
            current_cursor := cursor (empty_page\<lparr>cursor := Some ''c''\<rparr>)\<rparr>)"
    by (rule T [THEN conjunct1, THEN mp, OF h1])
  have c2: "count_page (start_locals ETHEREUM None) empty_page
     = Break ((start_locals ETHEREUM None)\<lparr>page_count :=
            page_count (start_locals ETHEREUM None) + 1,
            consecutive_empty_pages := consecutive_empty_pages (start_locals ETHEREUM None) + 1\<rparr>)"
    by (rule T [THEN conjunct2, THEN conjunct1, THEN mp, OF h2])
  have c3: "\<exists>st'. scrape_page empty_provider no_helius ''0xabc'' (start_locals POLYGON None)
               = Break st'
        \<and> fetches st' = fetches (start_locals POLYGON None) + 1
        \<and> emitted st' = emitted (start_locals POLYGON None)"
    by (rule T [where fetch = empty_provider, THEN conjunct2, THEN conjunct2, THEN mp, OF h3])
  from c1 c2 c3 show ?thesis
    by (simp add: start_locals_def empty_page_def)
qed


section \<open>Duplicate suppression: properties\<close>

lemma process_nfts_inv:
  "dedup_inv st \<Longrightarrow>
     dedup_inv (process_nfts xs st)
   \<and> seen_nfts (process_nfts xs st) = seen_nfts st \<union> nft_id ` set xs"
proof (induction xs arbitrary: st)
  case Nil
  then show ?case by simp
next
  case (Cons x xs)
  show ?case
  proof (cases "nft_id x \<in> seen_nfts st")
    case True
    with Cons.IH [OF Cons.prems] show ?thesis by auto
  next
    case False
    let ?st = "st\<lparr>seen_nfts := insert (nft_id x) (seen_nfts st),
                   total_scraped := total_scraped st + 1, emitted := emitted st @ [x]\<rparr>"
    have "dedup_inv ?st"
      using Cons.prems False by (auto simp: dedup_inv_def)
    from Cons.IH [OF this] False show ?thesis by auto
  qed
qed

lemma process_nfts_seen:
  "nft_id ` set xs \<subseteq> seen_nfts st \<Longrightarrow> process_nfts xs st = st"
  by (induction xs arbitrary: st) auto

lemma process_nfts_twice:
  assumes "dedup_inv st"
  shows "process_nfts xs (process_nfts xs st) = process_nfts xs st"
  by (rule process_nfts_seen) (use process_nfts_inv [OF assms, of xs] in auto)

lemma dedup_inv_cong:
  "emitted s' = emitted s \<Longrightarrow> seen_nfts s' = seen_nfts s \<Longrightarrow> total_scraped s' = total_scraped s
     \<Longrightarrow> dedup_inv s' = dedup_inv s"
  by (simp add: dedup_inv_def)

lemma dedup_inv_update:
  "dedup_inv (s\<lparr>fetches := f\<rparr>) = dedup_inv s"
  "dedup_inv (s\<lparr>collection_total := ct\<rparr>) = dedup_inv s"
  "dedup_inv (s\<lparr>error_sent := e\<rparr>) = dedup_inv s"
  "dedup_inv (s\<lparr>chain_var := ch\<rparr>) = dedup_inv s"
  by (simp_all add: dedup_inv_def)

lemma decide_inv_eq:
  "decide s r = Continue s' \<or> decide s r = Break s' \<Longrightarrow> dedup_inv s' = dedup_inv s"
  using decide_fields [of s r s'] by (simp add: dedup_inv_def)

lemma scrape_page_inv:
  assumes "scrape_page fetch hv addr st = Continue st' \<or> scrape_page fetch hv addr st = Break st'"
    and "dedup_inv st"
  shows "dedup_inv st'"
proof (cases "fetch (fetches st) (chain_var st) (cursor_var st) (if chain_var st = SOLANA then 1000 else 100)")
  case FetchRaised
  with assms show ?thesis by (auto simp: scrape_page_def Let_def dedup_inv_update)
next
  case (Fetched r)
  have pi: "\<And>s xs. dedup_inv s \<Longrightarrow> dedup_inv (process_nfts xs s)"
    using process_nfts_inv by blast
  have dc: "\<And>s. decide s r = Continue st' \<Longrightarrow> dedup_inv st' = dedup_inv s"
    and db: "\<And>s. decide s r = Break st' \<Longrightarrow> dedup_inv st' = dedup_inv s"
    using decide_inv_eq by blast+
  from assms Fetched show ?thesis
    by (auto simp: scrape_page_def Let_def dedup_inv_update pi
        split: if_splits prod.splits option.splits dest!: dc db)
qed

lemma scrape_loop_inv:
  "dedup_inv st \<Longrightarrow> dedup_inv (scrape_loop fetch hv addr st)"
proof (induction fetch hv addr st rule: scrape_loop.induct)
  case (1 fetch hv addr st)
  show ?case
  proof (cases "page_count st < max_pages")
    case False
    with "1.prems" show ?thesis by (simp add: scrape_loop_done)
  next
    case lt: True
    show ?thesis
    proof (cases "scrape_page fetch hv addr st")
      case (Continue st')
      have "dedup_inv st'"
        using scrape_page_inv [of fetch hv addr st st'] Continue "1.prems" by simp
      from "1.IH" [OF lt Continue this] show ?thesis
        by (simp add: scrape_loop_continue [OF lt Continue])
    next
      case (Break st')
      have "dedup_inv st'"
        using scrape_page_inv [of fetch hv addr st st'] Break "1.prems" by simp
      then show ?thesis
        by (simp add: scrape_loop_break [OF lt Break])
    qed
  qed
qed

text \<open>
  C4. Whatever the provider answers, the items the walk of one action has sent have
  pairwise different pairs (token_id, contract_address), and \<open>total_scraped\<close> is their
  number. An item whose pair was seen is neither sent nor counted: processing a page
  adds exactly the pairs of the page to the seen set, a page delivered twice changes
  nothing the second time, and a page whose pairs were all seen changes nothing.
\<close>

theorem walk_deduplicates:
  "dedup_inv (scrape_collection fetch hv addr c ct0)
 \<and> (dedup_inv st \<longrightarrow>
       dedup_inv (process_nfts xs st)
     \<and> seen_nfts (process_nfts xs st) = seen_nfts st \<union> nft_id ` set xs
     \<and> process_nfts xs (process_nfts xs st) = process_nfts xs st)
 \<and> (nft_id ` set xs \<subseteq> seen_nfts st \<longrightarrow> process_nfts xs st = st)"
proof (intro conjI impI)
  have "dedup_inv (count_phase fetch (start_locals c ct0))"
    using count_phase_facts [of fetch c ct0] by (simp add: dedup_inv_def)
  then show "dedup_inv (scrape_collection fetch hv addr c ct0)"
    unfolding scrape_collection_def by (rule scrape_loop_inv)
next
  assume "dedup_inv st"
  then show "dedup_inv (process_nfts xs st)"
    "seen_nfts (process_nfts xs st) = seen_nfts st \<union> nft_id ` set xs"
    "process_nfts xs (process_nfts xs st) = process_nfts xs st"
    using process_nfts_inv [of st xs] process_nfts_twice [of st xs] by simp_all
next
  assume "nft_id ` set xs \<subseteq> seen_nfts st"
  then show "process_nfts xs st = st" by (rule process_nfts_seen)
qed


theorem walk_deduplicates_witness:
  "dedup_inv (scrape_collection three_page_provider no_helius ''0xabc'' ETHEREUM None)
 \<and> dedup_inv (process_nfts
       [\<lparr>token_id = ''1'', contract_address = ''0xabc'', raw_metadata = None\<rparr>,
        \<lparr>token_id = ''2'', contract_address = ''0xabc'', raw_metadata = None\<rparr>,
        \<lparr>token_id = ''1'', contract_address = ''0xabc'', raw_metadata = None\<rparr>]
       (start_locals POLYGON None))
 \<and> emitted (process_nfts
       [\<lparr>token_id = ''1'', contract_address = ''0xabc'', raw_metadata = None\<rparr>,
        \<lparr>token_id = ''2'', contract_address = ''0xabc'', raw_metadata = None\<rparr>,
        \<lparr>token_id = ''1'', contract_address = ''0xabc'', raw_metadata = None\<rparr>]
       (start_locals POLYGON None))
     = [\<lparr>token_id = ''1'', contract_address = ''0xabc'', raw_metadata = None\<rparr>,
        \<lparr>token_id = ''2'', contract_address = ''0xabc'', raw_metadata = None\<rparr>]
 \<and> total_scraped (process_nfts
       [\<lparr>token_id = ''1'', contract_address = ''0xabc'', raw_metadata = None\<rparr>,
        \<lparr>token_id = ''2'', contract_address = ''0xabc'', raw_metadata = None\<rparr>,
        \<lparr>token_id = ''1'', contract_address = ''0xabc'', raw_metadata = None\<rparr>]
       (start_locals POLYGON None)) = 2
 \<and> process_nfts [\<lparr>token_id = ''1'', contract_address = ''0xabc'', raw_metadata = None\<rparr>]
       ((start_locals POLYGON None)\<lparr>seen_nfts := {(''1'', ''0xabc'')}\<rparr>)
     = (start_locals POLYGON None)\<lparr>seen_nfts := {(''1'', ''0xabc'')}\<rparr>"
proof -
  let ?a = "\<lparr>token_id = ''1'', contract_address = ''0xabc'', raw_metadata = None\<rparr>"
  let ?b = "\<lparr>token_id = ''2'', contract_address = ''0xabc'', raw_metadata = None\<rparr>"
  let ?s = "start_locals POLYGON None"
  let ?t = "?s\<lparr>seen_nfts := {(''1'', ''0xabc'')}\<rparr>"
  have h1: "dedup_inv ?s" by (simp add: dedup_inv_def start_locals_def)
  have h2: "nft_id ` set [?a] \<subseteq> seen_nfts ?t" by (simp add: nft_id_def)
  note T = walk_deduplicates
  have c1: "dedup_inv (scrape_collection three_page_provider no_helius ''0xabc'' ETHEREUM None)"
    by (rule T [THEN conjunct1])
  have c2: "dedup_inv (process_nfts [?a, ?b, ?a] ?s)"
    by (rule T [THEN conjunct2, THEN conjunct1, THEN mp, OF h1, THEN conjunct1])
  have c3: "process_nfts [?a] ?t = ?t"
    by (rule T [THEN conjunct2, THEN conjunct2, THEN mp, OF h2])
  have e: "emitted (process_nfts [?a, ?b, ?a] ?s) = [?a, ?b]"
    "total_scraped (process_nfts [?a, ?b, ?a] ?s) = 2"
    by (simp_all add: nft_id_def start_locals_def)
  from c1 c2 c3 e show ?thesis by (intro conjI)
qed


section \<open>Chain.from_string: properties\<close>

lemma py_isspace_lower [simp]: "py_isspace (py_lower_char c) = py_isspace c"
  by (simp add: py_isspace_def py_lower_char_def Let_def)

lemma dropWhile_all: "(\<And>x. x \<in> set xs \<Longrightarrow> P x) \<Longrightarrow> dropWhile P xs = []"
  by (induction xs) auto

lemma py_strip_pad:
  assumes pre: "\<And>c. c \<in> set pre \<Longrightarrow> py_isspace c"
    and post: "\<And>c. c \<in> set post \<Longrightarrow> py_isspace c"
  shows "py_strip (pre @ s @ post) = py_strip s"
proof -
  have front: "dropWhile py_isspace (pre @ s @ post) = dropWhile py_isspace (s @ post)"
    using pre by (simp add: dropWhile_append2)
  show ?thesis
  proof (cases "\<exists>c \<in> set s. \<not> py_isspace c")
    case True
    then obtain c where c: "c \<in> set s" "\<not> py_isspace c" by blast
    then have d: "dropWhile py_isspace (s @ post) = dropWhile py_isspace s @ post"
      by (simp add: dropWhile_append1)
    have "dropWhile py_isspace (rev post @ rev (dropWhile py_isspace s))
          = dropWhile py_isspace (rev (dropWhile py_isspace s))"
      by (rule dropWhile_append2) (use post in auto)
    then show ?thesis
      by (simp add: py_strip_def front d)
  next
    case False
    then have alls: "\<And>c. c \<in> set s \<Longrightarrow> py_isspace c" by blast
    have e1: "dropWhile py_isspace (s @ post) = []"
      by (rule dropWhile_all) (use alls post in auto)
    have e2: "dropWhile py_isspace s = []"
      by (rule dropWhile_all) (use alls in auto)
    show ?thesis
      unfolding py_strip_def front e1 e2 by simp
  qed
qed

lemma py_lower_pad:
  "py_lower (pre @ s @ post) = py_lower pre @ py_lower s @ py_lower post"
  by (simp add: py_lower_def)

lemma py_lower_space: "c \<in> set (py_lower ws) \<Longrightarrow> (\<And>d. d \<in> set ws \<Longrightarrow> py_isspace d) \<Longrightarrow> py_isspace c"
  by (auto simp: py_lower_def)

lemma from_string_pad:
  assumes "\<And>c. c \<in> set pre \<Longrightarrow> py_isspace c" and "\<And>c. c \<in> set post \<Longrightarrow> py_isspace c"
  shows "from_string (pre @ s @ post) = from_string s"
proof -
  have "py_strip (py_lower pre @ py_lower s @ py_lower post) = py_strip (py_lower s)"
    by (rule py_strip_pad) (use assms in \<open>auto simp: py_lower_def\<close>)
  then show ?thesis
    by (simp add: from_string_def py_lower_pad)
qed

lemma from_string_key:
  "py_strip (py_lower s) = k \<Longrightarrow> map_of mapping k = Some c \<Longrightarrow> from_string s = c"
  by (simp add: from_string_def)

lemma map_of_mapping_None:
  "k \<notin> fst ` set mapping \<Longrightarrow> map_of mapping k = None"
  by (simp add: map_of_eq_None_iff)

text \<open>
  C9. \<open>Chain.from_string\<close> returns a chain for every string. A string that, lowered and
  stripped, is one of the eleven aliases gives the alias's chain (eth/ethereum,
  matic/polygon, arb/arbitrum, op/optimism, base, sol/solana); padding with whitespace
  and changing the case of letters do not change the result; every other string gives
  ETHEREUM.
\<close>

theorem from_string_aliases_default:
  "(py_strip (py_lower s) \<in> {''eth'', ''ethereum''} \<longrightarrow> from_string s = ETHEREUM)
 \<and> (py_strip (py_lower s) \<in> {''matic'', ''polygon''} \<longrightarrow> from_string s = POLYGON)
 \<and> (py_strip (py_lower s) \<in> {''arb'', ''arbitrum''} \<longrightarrow> from_string s = ARBITRUM)
 \<and> (py_strip (py_lower s) \<in> {''op'', ''optimism''} \<longrightarrow> from_string s = OPTIMISM)
 \<and> (py_strip (py_lower s) = ''base'' \<longrightarrow> from_string s = BASE)
 \<and> (py_strip (py_lower s) \<in> {''sol'', ''solana''} \<longrightarrow> from_string s = SOLANA)
 \<and> (py_strip (py_lower s) \<notin> {''eth'', ''ethereum'', ''matic'', ''polygon'', ''arb'',
        ''arbitrum'', ''op'', ''optimism'', ''base'', ''sol'', ''solana''}
      \<longrightarrow> from_string s = ETHEREUM)
 \<and> ((\<forall>c \<in> set pre. py_isspace c) \<and> (\<forall>c \<in> set post. py_isspace c)
      \<longrightarrow> from_string (pre @ s @ post) = from_string s)
 \<and> (py_lower s = py_lower t \<longrightarrow> from_string s = from_string t)"
proof (intro conjI impI)
  assume "py_strip (py_lower s) \<in> {''eth'', ''ethereum''}"
  then show "from_string s = ETHEREUM"
    by (auto simp: from_string_def mapping_def)
next
  assume "py_strip (py_lower s) \<in> {''matic'', ''polygon''}"
  then show "from_string s = POLYGON"
    by (auto simp: from_string_def mapping_def)
next
  assume "py_strip (py_lower s) \<in> {''arb'', ''arbitrum''}"
  then show "from_string s = ARBITRUM"
    by (auto simp: from_string_def mapping_def)
next
  assume "py_strip (py_lower s) \<in> {''op'', ''optimism''}"
  then show "from_string s = OPTIMISM"
    by (auto simp: from_string_def mapping_def)
next
  assume "py_strip (py_lower s) = ''base''"
  then show "from_string s = BASE"
    by (simp add: from_string_def mapping_def)
next
  assume "py_strip (py_lower s) \<in> {''sol'', ''solana''}"
  then show "from_string s = SOLANA"
    by (auto simp: from_string_def mapping_def)
next
  assume "py_strip (py_lower s) \<notin> {''eth'', ''ethereum'', ''matic'', ''polygon'', ''arb'',
        ''arbitrum'', ''op'', ''optimism'', ''base'', ''sol'', ''solana''}"
  then have "py_strip (py_lower s) \<notin> fst ` set mapping"
    by (simp add: mapping_def)
  then have "map_of mapping (py_strip (py_lower s)) = None"
    by (rule map_of_mapping_None)
  then show "from_string s = ETHEREUM"
    by (simp add: from_string_def)
next
  assume "(\<forall>c \<in> set pre. py_isspace c) \<and> (\<forall>c \<in> set post. py_isspace c)"
  then show "from_string (pre @ s @ post) = from_string s"
    by (intro from_string_pad) auto
next
  assume "py_lower s = py_lower t"
  then show "from_string s = from_string t"
    by (simp add: from_string_def)
qed

theorem from_string_aliases_default_witness:
  "from_string ''  EtH '' = ETHEREUM
 \<and> from_string ''MATIC'' = POLYGON
 \<and> from_string ''Arb'' = ARBITRUM
 \<and> from_string ''Optimism'' = OPTIMISM
 \<and> from_string ''BASE'' = BASE
 \<and> from_string ''Sol'' = SOLANA
 \<and> from_string ''dogechain'' = ETHEREUM
 \<and> from_string ('' '' @ ''Sol'' @ ''  '') = from_string ''Sol''
 \<and> from_string ''SOL'' = from_string ''sol''"
proof -
  have h1: "py_strip (py_lower ''  EtH '') \<in> {''eth'', ''ethereum''}" by code_simp
  have h2: "py_strip (py_lower ''MATIC'') \<in> {''matic'', ''polygon''}" by code_simp
  have h3: "py_strip (py_lower ''Arb'') \<in> {''arb'', ''arbitrum''}" by code_simp
  have h4: "py_strip (py_lower ''Optimism'') \<in> {''op'', ''optimism''}" by code_simp
  have h5: "py_strip (py_lower ''BASE'') = ''base''" by code_simp
  have h6: "py_strip (py_lower ''Sol'') \<in> {''sol'', ''solana''}" by code_simp
  have h7: "py_strip (py_lower ''dogechain'') \<notin> {''eth'', ''ethereum'', ''matic'',
      ''polygon'', ''arb'', ''arbitrum'', ''op'', ''optimism'', ''base'', ''sol'', ''solana''}"
    by code_simp
  have h8: "(\<forall>c \<in> set '' ''. py_isspace c) \<and> (\<forall>c \<in> set ''  ''. py_isspace c)"
    by code_simp
  have h9: "py_lower ''SOL'' = py_lower ''sol''" by code_simp
  note T = from_string_aliases_default
  have c1: "from_string ''  EtH '' = ETHEREUM"
    by (rule T [THEN conjunct1, THEN mp, OF h1])
  have c2: "from_string ''MATIC'' = POLYGON"
    by (rule T [THEN conjunct2, THEN conjunct1, THEN mp, OF h2])
  have c3: "from_string ''Arb'' = ARBITRUM"
    by (rule T [THEN conjunct2, THEN conjunct2, THEN conjunct1, THEN mp, OF h3])
  have c4: "from_string ''Optimism'' = OPTIMISM"
    by (rule T [THEN conjunct2, THEN conjunct2, THEN conjunct2, THEN conjunct1, THEN mp, OF h4])
  have c5: "from_string ''BASE'' = BASE"
    by (rule T [THEN conjunct2, THEN conjunct2, THEN conjunct2, THEN conjunct2,
          THEN conjunct1, THEN mp, OF h5])
  have c6: "from_string ''Sol'' = SOLANA"
    by (rule T [THEN conjunct2, THEN conjunct2, THEN conjunct2, THEN conjunct2,
          THEN conjunct2, THEN conjunct1, THEN mp, OF h6])
  have c7: "from_string ''dogechain'' = ETHEREUM"
    by (rule T [THEN conjunct2, THEN conjunct2, THEN conjunct2, THEN conjunct2,
          THEN conjunct2, THEN conjunct2, THEN conjunct1, THEN mp, OF h7])
  have c8: "from_string ('' '' @ ''Sol'' @ ''  '') = from_string ''Sol''"
    by (rule T [THEN conjunct2, THEN conjunct2, THEN conjunct2, THEN conjunct2,
          THEN conjunct2, THEN conjunct2, THEN conjunct2, THEN conjunct1, THEN mp, OF h8])
  have c9: "from_string ''SOL'' = from_string ''sol''"
    by (rule T [THEN conjunct2, THEN conjunct2, THEN conjunct2, THEN conjunct2,
          THEN conjunct2, THEN conjunct2, THEN conjunct2, THEN conjunct2, THEN mp, OF h9])
  from c1 c2 c3 c4 c5 c6 c7 c8 c9 show ?thesis
    by (intro conjI)
qed


section \<open>MemoryStorage: properties\<close>

lemma storage_inv_init: "storage_inv (MemoryStorage_init cfg)"
  by (simp add: storage_inv_def MemoryStorage_init_def)

lemma storage_inv_delete: "storage_inv ms \<Longrightarrow> storage_inv (delete_cache ms key)"
  by (simp add: storage_inv_def delete_cache_def TTLCache_pop_def)

lemma set_cache_eq:
  "set_cache ms now key val ttl_arg =
     (case TTLCache_setitem (cache ms) now key val of
        Inl e \<Rightarrow> Inl e | Inr c \<Rightarrow> Inr (ms\<lparr>cache := c\<rparr>))"
  by (simp add: set_cache_def)

lemma map_of_relinked:
  "map_of (filter (\<lambda>(k, v, e). k \<noteq> key) ls @ [(key, val, ex)]) key = Some (val, ex)"
proof -
  have "key \<notin> fst ` set (filter (\<lambda>(k, v, e). k \<noteq> key) ls)"
    by auto
  then have "map_of (filter (\<lambda>(k, v, e). k \<noteq> key) ls) key = None"
    by (simp add: map_of_eq_None_iff)
  then show ?thesis
    by (simp add: map_add_def)
qed

lemma setitem_links:
  "0 < maxsize c \<Longrightarrow>
   \<exists>l. TTLCache_setitem c now key val =
         Inr (c\<lparr>links := filter (\<lambda>(k, v, e). k \<noteq> key) l @ [(key, val, now + real_of_int (ttl c))]\<rparr>)"
  by (auto simp: TTLCache_setitem_def Let_def)

text \<open>
  C10. \<open>MemoryStorage.set_cache\<close> gives the same storage whatever \<open>ttl\<close> it is passed,
  and in a storage built by \<open>__init__\<close> (or reached from there) the stored entry is read
  back by \<open>get_cache\<close> exactly until \<open>now + config.cache_ttl\<close>.
\<close>

theorem set_cache_uses_default_ttl:
  "set_cache ms now key val ttl1 = set_cache ms now key val ttl2
 \<and> (storage_inv ms \<longrightarrow>
      (\<exists>ms'. set_cache ms now key val ttl1 = Inr ms' \<and> storage_inv ms'
         \<and> map_of (links (cache ms')) key
              = Some (val, now + real_of_int (cache_ttl (config ms)))
         \<and> (\<forall>t. get_cache ms' t key
              = (if t < now + real_of_int (cache_ttl (config ms)) then Some val else None))))"
proof (intro conjI impI)
  show "set_cache ms now key val ttl1 = set_cache ms now key val ttl2"
    by (simp add: set_cache_eq)
next
  assume inv: "storage_inv ms"
  then have pos: "0 < maxsize (cache ms)" and t: "ttl (cache ms) = cache_ttl (config ms)"
    by (simp_all add: storage_inv_def)
  from setitem_links [OF pos, of now key val] obtain l where
    l: "TTLCache_setitem (cache ms) now key val =
          Inr ((cache ms)\<lparr>links := filter (\<lambda>(k, v, e). k \<noteq> key) l
                 @ [(key, val, now + real_of_int (ttl (cache ms)))]\<rparr>)"
    by blast
  let ?ms = "ms\<lparr>cache := (cache ms)\<lparr>links := filter (\<lambda>(k, v, e). k \<noteq> key) l
                 @ [(key, val, now + real_of_int (ttl (cache ms)))]\<rparr>\<rparr>"
  have a: "set_cache ms now key val ttl1 = Inr ?ms"
    by (simp add: set_cache_eq l)
  have b: "storage_inv ?ms"
    using inv by (simp add: storage_inv_def)
  have c: "map_of (links (cache ?ms)) key = Some (val, now + real_of_int (cache_ttl (config ms)))"
    using map_of_relinked [of key l val] by (simp add: t)
  have d: "\<forall>t. get_cache ?ms t key
              = (if t < now + real_of_int (cache_ttl (config ms)) then Some val else None)"
    using c by (simp add: get_cache_def TTLCache_get_def)
  from a b c d show "\<exists>ms'. set_cache ms now key val ttl1 = Inr ms' \<and> storage_inv ms'
         \<and> map_of (links (cache ms')) key
              = Some (val, now + real_of_int (cache_ttl (config ms)))
         \<and> (\<forall>t. get_cache ms' t key
              = (if t < now + real_of_int (cache_ttl (config ms)) then Some val else None))"
    by blast
qed

theorem set_cache_uses_default_ttl_witness:
  "storage_inv (MemoryStorage_init \<lparr>cache_ttl = 900\<rparr> :: nat MemoryStorage)
 \<and> set_cache (MemoryStorage_init \<lparr>cache_ttl = 900\<rparr>) 0 ''k'' (7::nat) 60
      = set_cache (MemoryStorage_init \<lparr>cache_ttl = 900\<rparr>) 0 ''k'' 7 900
 \<and> (\<exists>ms'. set_cache (MemoryStorage_init \<lparr>cache_ttl = 900\<rparr>) 0 ''k'' (7::nat) 60 = Inr ms'
       \<and> get_cache ms' 61 ''k'' = Some 7 \<and> get_cache ms' 900 ''k'' = None)"
proof -
  have inv: "storage_inv (MemoryStorage_init \<lparr>cache_ttl = 900\<rparr> :: nat MemoryStorage)"
    by (simp add: storage_inv_def MemoryStorage_init_def)
  have cfg: "cache_ttl (config (MemoryStorage_init \<lparr>cache_ttl = 900\<rparr> :: nat MemoryStorage)) = 900"
    by (simp add: MemoryStorage_init_def)
  from set_cache_uses_default_ttl
    [of "MemoryStorage_init \<lparr>cache_ttl = 900\<rparr> :: nat MemoryStorage" 0 "''k''" 7 60 900] inv
  obtain ms' where eq: "set_cache (MemoryStorage_init \<lparr>cache_ttl = 900\<rparr>) 0 ''k'' (7::nat) 60
        = set_cache (MemoryStorage_init \<lparr>cache_ttl = 900\<rparr>) 0 ''k'' 7 900"
    and r: "set_cache (MemoryStorage_init \<lparr>cache_ttl = 900\<rparr>) 0 ''k'' (7::nat) 60 = Inr ms'"
    and g: "\<forall>t. get_cache ms' t ''k'' = (if t < 0 + real_of_int
        (cache_ttl (config (MemoryStorage_init \<lparr>cache_ttl = 900\<rparr> :: nat MemoryStorage)))
        then Some 7 else None)"
    by blast
  from g have "get_cache ms' 61 ''k'' = Some 7" "get_cache ms' 900 ''k'' = None"
    by (simp_all add: cfg)
  with inv eq r show ?thesis by blast
qed

end
